theory Spec2Isabelle
  imports Main
begin

section \<open>JavaScript values\<close>

text \<open>
  The manifest is JSON data.  A value is one of the JSON shapes, or \<open>undefined\<close> for a
  property that is not there.  A number is kept as the text that \<open>String(n)\<close> gives it
  (\<open>0\<close>, \<open>-12\<close>, \<open>1.5\<close>, \<open>1e+21\<close>, \<open>NaN\<close>): the program tests numbers for truthiness
  and interpolates them, and does nothing else with them.  An object is an association
  list with distinct keys.
\<close>

datatype jsval =
    Undefined
  | Null
  | Bool bool
  | Num string
  | Str string
  | Arr "jsval list"
  | Obj "(string \<times> jsval) list"

text \<open>
  What the program can throw: a \<open>TypeError\<close> of the language, and the
  \<open>Error('Invalid depth: ' + depth)\<close> of \<open>mdast-builder\<close>'s \<open>heading\<close>.
\<close>

datatype error = TypeError | InvalidDepth int

text \<open>Sequencing of computations that may throw.\<close>

fun and_then :: "error + 'a \<Rightarrow> ('a \<Rightarrow> error + 'b) \<Rightarrow> error + 'b" where
  "and_then (Inl e) f = Inl e"
| "and_then (Inr v) f = f v"

text \<open>Evaluating the elements of an array literal left to right: the first throw wins.\<close>

fun sequence :: "(error + 'a) list \<Rightarrow> error + 'a list" where
  "sequence [] = Inr []"
| "sequence (r # rs) = and_then r (\<lambda>v. and_then (sequence rs) (\<lambda>vs. Inr (v # vs)))"

text \<open>An array literal made of spreads, \<open>[...a, ...b, ...]\<close>.\<close>

definition spreads :: "(error + 'a list) list \<Rightarrow> error + 'a list" where
  "spreads rs = and_then (sequence rs) (\<lambda>xss. Inr (concat xss))"

text \<open>Conversion to boolean, as \<open>if\<close>, \<open>!\<close>, \<open>? :\<close> and \<open>Array.prototype.filter\<close> apply it.\<close>

fun truthy :: "jsval \<Rightarrow> bool" where
  "truthy Undefined = False"
| "truthy Null = False"
| "truthy (Bool b) = b"
| "truthy (Num n) = (n \<noteq> ''0'' \<and> n \<noteq> ''NaN'')"
| "truthy (Str s) = (s \<noteq> [])"
| "truthy (Arr xs) = True"
| "truthy (Obj kvs) = True"

fun nullish :: "jsval \<Rightarrow> bool" where
  "nullish Undefined = True"
| "nullish Null = True"
| "nullish _ = False"

text \<open>
  \<open>x?.p\<close>: never throws.  It reads the own keys of an object.  The built-in and
  inherited properties (\<open>length\<close>, \<open>constructor\<close>, the indices of a string) are not
  modelled: none of them is among the names that \<open>index.js\<close> reads.
\<close>

fun optdot :: "jsval \<Rightarrow> string \<Rightarrow> jsval" where
  "optdot (Obj kvs) p = (case map_of kvs p of None \<Rightarrow> Undefined | Some v \<Rightarrow> v)"
| "optdot _ p = Undefined"

text \<open>\<open>x.p\<close>: throws on \<open>undefined\<close> and \<open>null\<close>.\<close>

definition dot :: "jsval \<Rightarrow> string \<Rightarrow> error + jsval" where
  "dot x p = (if nullish x then Inl TypeError else Inr (optdot x p))"

text \<open>\<open>a ?? b\<close>\<close>

definition coalesce :: "jsval \<Rightarrow> jsval \<Rightarrow> jsval" where
  "coalesce a b = (if nullish a then b else a)"

text \<open>
  The receiver of \<open>.filter\<close>, \<open>.map\<close> and \<open>.flatMap\<close>: only an array has these
  methods; on any other value the call throws.
\<close>

fun array_of :: "jsval \<Rightarrow> error + jsval list" where
  "array_of (Arr xs) = Inr xs"
| "array_of _ = Inl TypeError"

text \<open>The decimal text of a natural number.\<close>

fun digits :: "nat \<Rightarrow> string" where
  "digits n =
     (if n < 10 then [''0123456789'' ! n]
      else digits (n div 10) @ [''0123456789'' ! (n mod 10)])"

text \<open>
  \<open>x.length\<close> on a value that is not \<open>undefined\<close> or \<open>null\<close>.  The program only
  tests it for being zero (\<open>!declarations.length\<close>).
\<close>

fun js_length :: "jsval \<Rightarrow> jsval" where
  "js_length (Arr xs) = Num (digits (length xs))"
| "js_length (Str s) = Num (digits (length s))"
| "js_length x = optdot x ''length''"

text \<open>\<open>xs[i]\<close>: \<open>undefined\<close> out of range.\<close>

definition js_nth :: "jsval list \<Rightarrow> nat \<Rightarrow> jsval" where
  "js_nth xs i = (if i < length xs then xs ! i else Undefined)"

text \<open>\<open>xs.filter(f)\<close>: keeps the elements whose image is truthy.\<close>

definition js_filter :: "(jsval \<Rightarrow> jsval) \<Rightarrow> jsval list \<Rightarrow> jsval list" where
  "js_filter f xs = filter (\<lambda>x. truthy (f x)) xs"

text \<open>\<open>xs.map((x, i) => f(x, i))\<close>\<close>

fun map_indexed :: "('a \<Rightarrow> nat \<Rightarrow> 'b) \<Rightarrow> nat \<Rightarrow> 'a list \<Rightarrow> 'b list" where
  "map_indexed f i [] = []"
| "map_indexed f i (x # xs) = f x i # map_indexed f (Suc i) xs"

text \<open>\<open>xs.join(sep)\<close> on an array of strings.\<close>

fun join :: "string \<Rightarrow> string list \<Rightarrow> string" where
  "join sep [] = []"
| "join sep [s] = s"
| "join sep (s # t # ss) = s @ sep @ join sep (t # ss)"

text \<open>
  String conversion, as a template literal \<open>`${x}`\<close> applies it.  An array is joined
  with commas, \<open>undefined\<close> and \<open>null\<close> entries giving the empty string.  An object
  without a \<open>toString\<close> key of its own prints through \<open>Object.prototype.toString\<close>; with
  one (in JSON data it cannot be a function) the conversion throws.
\<close>

fun to_string :: "jsval \<Rightarrow> error + string" where
  "to_string Undefined = Inr ''undefined''"
| "to_string Null = Inr ''null''"
| "to_string (Bool b) = Inr (if b then ''true'' else ''false'')"
| "to_string (Num n) = Inr n"
| "to_string (Str s) = Inr s"
| "to_string (Arr xs) =
     and_then (sequence (map (\<lambda>x. if nullish x then Inr [] else to_string x) xs))
       (\<lambda>ss. Inr (join '','' ss))"
| "to_string (Obj kvs) =
     (case map_of kvs ''toString'' of
        None \<Rightarrow> Inr ''[object Object]''
      | Some v \<Rightarrow> Inl TypeError)"

section \<open>The helpers of \<open>lib/fp.js\<close>\<close>

text \<open>
  Modelled from the spec: \<open>lib/fp.js\<close> is imported by \<open>index.js\<close> and is not among the
  sources.  The spec (section 2) has it as "pure boolean and higher-order helpers
  (negation, disjunction, composition, emptiness/length checks, kind-equality)", a
  member's privacy as one of public, protected, private with absence meaning public
  (section 3), and the row filter as applied before absent entries are dropped
  (section 4.3, step 2), so the predicates return normally on an absent entry.
\<close>

definition identity :: "'a \<Rightarrow> 'a" where
  "identity x = x"

definition compose :: "('b \<Rightarrow> 'c) \<Rightarrow> ('a \<Rightarrow> 'b) \<Rightarrow> 'a \<Rightarrow> 'c" where
  "compose f g x = f (g x)"

definition not :: "(jsval \<Rightarrow> jsval) \<Rightarrow> jsval \<Rightarrow> jsval" where
  "not p x = Bool (\<not> truthy (p x))"

definition or :: "(jsval \<Rightarrow> jsval) \<Rightarrow> (jsval \<Rightarrow> jsval) \<Rightarrow> jsval \<Rightarrow> jsval" where
  "or p q x = (if truthy (p x) then p x else q x)"

definition isPrivate :: "jsval \<Rightarrow> jsval" where
  "isPrivate x = Bool (optdot x ''privacy'' = Str ''private'')"

definition isProtected :: "jsval \<Rightarrow> jsval" where
  "isProtected x = Bool (optdot x ''privacy'' = Str ''protected'')"

definition kindIs :: "string \<Rightarrow> jsval \<Rightarrow> jsval" where
  "kindIs test x = Bool (optdot x ''kind'' = Str test)"

definition isLengthy :: "'a list \<Rightarrow> bool" where
  "isLengthy xs = (xs \<noteq> [])"

definition repeat :: "nat \<Rightarrow> 'a \<Rightarrow> 'a list" where
  "repeat n x = replicate n x"

definition upper :: "char \<Rightarrow> char" where
  "upper c =
     (case map_of (zip ''abcdefghijklmnopqrstuvwxyz'' ''ABCDEFGHIJKLMNOPQRSTUVWXYZ'') c of
        None \<Rightarrow> c
      | Some u \<Rightarrow> u)"

fun capital :: "string \<Rightarrow> string" where
  "capital [] = []"
| "capital (c # cs) = upper c # cs"

section \<open>Document nodes\<close>

text \<open>
  The nodes that the builders of the \<open>mdast-builder\<close> library make: \<open>text(v)\<close>,
  \<open>inlineCode(v)\<close>, \<open>html(s)\<close>, \<open>heading(depth, kids)\<close>, \<open>table(align, rows)\<close>,
  \<open>tableRow(cells)\<close>, \<open>tableCell(kids)\<close>, \<open>root(kids)\<close>.  A builder given one child
  instead of an array wraps it in an array.  Of these only \<open>heading\<close> checks its
  arguments.
\<close>

datatype node =
    Text jsval
  | InlineCode jsval
  | Html string
  | Heading int "node list"
  | Table "jsval list" "node list"
  | TableRow "node list"
  | TableCell "node list"
  | Root "node list"

text \<open>\<open>heading(depth, kids)\<close> refuses a depth below 1.\<close>

definition heading_node :: "int \<Rightarrow> node list \<Rightarrow> error + node" where
  "heading_node depth kids =
     (if depth < 1 then Inl (InvalidDepth depth) else Inr (Heading depth kids))"

definition line :: node where
  "line = Html ''<hr/>''"

section \<open>Options\<close>

text \<open>The options of a render call; the call may also pass none.\<close>

record options =
  headingOffset :: "int option"
  privateOpt :: "string option"

text \<open>\<open>options?.private\<close>\<close>

definition private_of :: "options option \<Rightarrow> string option" where
  "private_of opts = (case opts of None \<Rightarrow> None | Some opt \<Rightarrow> privateOpt opt)"

text \<open>\<open>options?.headingOffset ?? 0\<close>\<close>

definition offset_of :: "options option \<Rightarrow> int" where
  "offset_of opts =
     (case opts of None \<Rightarrow> 0
      | Some opt \<Rightarrow> (case headingOffset opt of None \<Rightarrow> 0 | Some n \<Rightarrow> n))"

section \<open>Descriptors and columns\<close>

text \<open>
  A descriptor \<open>{ heading, get, cellType }\<close>; \<open>cellType\<close> may be missing.  An accessor
  is a JavaScript function, so it may throw.  A cell formatter is one of the node
  builders \<open>text\<close> and \<open>inlineCode\<close>.
\<close>

record descriptor =
  heading :: string
  get :: "jsval \<Rightarrow> error + jsval"
  cellType :: "(jsval \<Rightarrow> node) option"

text \<open>A column specification is a string or a descriptor (\<open>typeof x === 'string'\<close>).\<close>

datatype colspec = Name string | Desc descriptor

record column =
  col_heading :: string
  col_cellType :: "jsval \<Rightarrow> node"
  col_values :: "jsval list"

definition formatParameters :: "jsval \<Rightarrow> error + jsval" where
  "formatParameters x =
     (let ps = optdot x ''parameters''
      in if nullish ps then Inr Undefined
         else and_then (array_of ps) (\<lambda>params.
           and_then (sequence (map (\<lambda>param.
               and_then (to_string (optdot param ''name'')) (\<lambda>name.
                 if truthy (optdot (optdot param ''type'') ''text'')
                 then and_then (to_string (optdot (optdot param ''type'') ''text'')) (\<lambda>text.
                        Inr (name @ '': '' @ text))
                 else Inr name)) params))
             (\<lambda>strs. Inr (Str (join '', '' strs)))))"

definition DECLARATION :: descriptor where
  "DECLARATION = \<lparr> heading = ''Declaration'',
     get = (\<lambda>x. and_then (dot x ''declaration'') (\<lambda>d. Inr (coalesce (optdot d ''name'') (Str [])))),
     cellType = None \<rparr>"

definition DEFAULT :: descriptor where
  "DEFAULT = \<lparr> heading = ''Default'',
     get = (\<lambda>x. dot x ''default''),
     cellType = Some InlineCode \<rparr>"

definition ATTR_FIELD :: descriptor where
  "ATTR_FIELD = \<lparr> heading = ''Field'',
     get = (\<lambda>x. dot x ''fieldName''),
     cellType = None \<rparr>"

definition INHERITANCE :: descriptor where
  "INHERITANCE = \<lparr> heading = ''Inherited From'',
     get = (\<lambda>x. and_then (dot x ''inheritedFrom'') (\<lambda>d. Inr (coalesce (optdot d ''name'') (Str [])))),
     cellType = None \<rparr>"

definition MODULE :: descriptor where
  "MODULE = \<lparr> heading = ''Module'',
     get = (\<lambda>x. and_then (dot x ''declaration'') (\<lambda>d. Inr (coalesce (optdot d ''module'') (Str [])))),
     cellType = None \<rparr>"

definition PACKAGE :: descriptor where
  "PACKAGE = \<lparr> heading = ''Package'',
     get = (\<lambda>x. and_then (dot x ''declaration'') (\<lambda>d. Inr (coalesce (optdot d ''package'') (Str [])))),
     cellType = None \<rparr>"

definition PARAMETERS :: descriptor where
  "PARAMETERS = \<lparr> heading = ''Parameters'',
     get = formatParameters,
     cellType = Some InlineCode \<rparr>"

definition RETURN :: descriptor where
  "RETURN = \<lparr> heading = ''Return'',
     get = (\<lambda>x. and_then (dot x ''return'') (\<lambda>r.
              Inr (coalesce (optdot (optdot r ''type'') ''text'') r))),
     cellType = Some InlineCode \<rparr>"

definition TYPE_COL :: descriptor where
  "TYPE_COL = \<lparr> heading = ''Type'',
     get = (\<lambda>x. and_then (dot x ''type'') (\<lambda>t. Inr (coalesce (optdot t ''text'') (Str [])))),
     cellType = Some InlineCode \<rparr>"

text \<open>Options -> Declaration -> Heading\<close>

definition declarationHeading :: "options option \<Rightarrow> jsval \<Rightarrow> error + node" where
  "declarationHeading opts decl =
     (if nullish decl then Inl TypeError
      else let kind = optdot decl ''kind''; name = optdot decl ''name'';
               tagName = optdot decl ''tagName''
           in and_then (to_string kind) (\<lambda>k.
                heading_node (2 + offset_of opts)
                  ([Text (Str (k @ '': '')), InlineCode name]
                   @ (if truthy tagName then [Text (Str '', ''), InlineCode tagName] else []))))"

text \<open>String -> Descriptor\<close>

definition defaultDescriptor :: "string \<Rightarrow> descriptor" where
  "defaultDescriptor name =
     \<lparr> heading = capital name, get = (\<lambda>x. Inr (optdot x name)), cellType = None \<rparr>"

text \<open>String|Descriptor -> Descriptor\<close>

fun getDescriptor :: "colspec \<Rightarrow> descriptor" where
  "getDescriptor (Name x) = defaultDescriptor x"
| "getDescriptor (Desc x) = x"

text \<open>[Declaration] -> Descriptor -> Column.  A missing \<open>cellType\<close> defaults to \<open>text\<close>.\<close>

definition getColumn :: "jsval list \<Rightarrow> descriptor \<Rightarrow> error + column" where
  "getColumn decls d =
     and_then (sequence (map (\<lambda>x. get d x) decls)) (\<lambda>vs.
       Inr \<lparr> col_heading = heading d,
             col_cellType = (case cellType d of None \<Rightarrow> Text | Some c \<Rightarrow> c),
             col_values = vs \<rparr>)"

text \<open>Column -> Cell\<close>

definition getHeading :: "column \<Rightarrow> node" where
  "getHeading x = TableCell [Text (Str (col_heading x))]"

text \<open>Int -> Column -> Cell\<close>

definition getCell :: "nat \<Rightarrow> column \<Rightarrow> node" where
  "getCell i c =
     TableCell [if truthy (js_nth (col_values c) i)
                then col_cellType c (js_nth (col_values c) i)
                else Text (Str [])]"

text \<open>[Column] -> (, Int) -> Row [Cell]\<close>

definition getRows :: "column list \<Rightarrow> jsval \<Rightarrow> nat \<Rightarrow> node" where
  "getRows columns x i = TableRow (map (getCell i) columns)"

section \<open>Table assembly\<close>

text \<open>The fourth argument of \<open>tableWithTitle\<close>, \<open>{ headingLevel = 3, filter } = { }\<close>.\<close>

record table_opts =
  headingLevel :: "int option"
  filter_opt :: "(jsval \<Rightarrow> jsval) option"

definition level_of :: "table_opts option \<Rightarrow> int" where
  "level_of topts =
     (case topts of None \<Rightarrow> 3
      | Some t \<Rightarrow> (case headingLevel t of None \<Rightarrow> 3 | Some n \<Rightarrow> n))"

definition filter_of :: "table_opts option \<Rightarrow> (jsval \<Rightarrow> jsval) option" where
  "filter_of topts = (case topts of None \<Rightarrow> None | Some t \<Rightarrow> filter_opt t)"

text \<open>The row filter \<open>by\<close> (lines 78 to 83).\<close>

definition by_filter :: "options option \<Rightarrow> table_opts option \<Rightarrow> jsval \<Rightarrow> jsval" where
  "by_filter opts topts =
     (case filter_of topts of
        Some f \<Rightarrow> f
      | None \<Rightarrow>
          if private_of opts = Some ''hidden'' then not isPrivate
          else if private_of opts = Some ''details'' then not (or isPrivate isProtected)
          else identity)"

text \<open>The surviving rows \<open>(_decls ?? []).filter(by).filter(identity)\<close> (line 85).\<close>

definition retained :: "options option \<Rightarrow> table_opts option \<Rightarrow> jsval list \<Rightarrow> jsval list" where
  "retained opts topts xs = js_filter identity (js_filter (by_filter opts topts) xs)"

definition surviving :: "options option \<Rightarrow> table_opts option \<Rightarrow> jsval \<Rightarrow> error + jsval list" where
  "surviving opts topts decls0 =
     and_then (array_of (coalesce decls0 (Arr []))) (\<lambda>xs. Inr (retained opts topts xs))"

text \<open>Options -> String -> [String|Descriptor] -> [Declaration] -> Parent Table\<close>

definition tableWithTitle ::
  "options option \<Rightarrow> string \<Rightarrow> colspec list \<Rightarrow> jsval \<Rightarrow> table_opts option \<Rightarrow> error + node list"
where
  "tableWithTitle opts title names decls0 topts =
     and_then (surviving opts topts decls0) (\<lambda>decls.
       if \<not> isLengthy decls then Inr []
       else and_then (sequence (map (compose (getColumn decls) getDescriptor) names)) (\<lambda>columns.
         let contentRows = map_indexed (getRows columns) 0 decls
         in and_then (heading_node (level_of topts + offset_of opts) [Text (Str title)]) (\<lambda>h.
              Inr [ h,
                    Table (repeat (length columns) Null)
                          (TableRow (map getHeading columns) # contentRows) ])))"

section \<open>Module documents\<close>

text \<open>
  An array of nodes in which an entry may be \<open>null\<close> or \<open>undefined\<close> (\<open>None\<close>), and
  \<open>.filter(identity)\<close> on it: a node is an object, so it is kept.
\<close>

fun filter_identity :: "node option list \<Rightarrow> node list" where
  "filter_identity [] = []"
| "filter_identity (None # xs) = filter_identity xs"
| "filter_identity (Some n # xs) = n # filter_identity xs"

text \<open>\<open>...t\<close> inside an array literal whose entries may be \<open>null\<close>.\<close>

definition spread :: "error + node list \<Rightarrow> error + node option list" where
  "spread r = and_then r (\<lambda>ns. Inr (map Some ns))"

text \<open>
  The callback of \<open>declarations.flatMap\<close> in \<open>makeModuleDoc\<close> (lines 124 to 163), the
  nodes of one declaration, in the three steps the source takes.

  First the array \<open>nodes\<close> (lines 130 to 144), given the declaration, its \<open>fields\<close>
  and its \<open>methods\<close>.
\<close>

definition mainNodes :: "options option \<Rightarrow> jsval \<Rightarrow> jsval list \<Rightarrow> jsval list \<Rightarrow> error + node list" where
  "mainNodes opts decl flds mths =
     (let kind = optdot decl ''kind'';
          makeTable = tableWithTitle opts
      in and_then (spreads [
           (if kind \<noteq> Str ''mixin'' \<and> kind \<noteq> Str ''class'' then Inr [None]
            else and_then (declarationHeading opts decl) (\<lambda>h. Inr [Some h])),
           spread (makeTable ''Superclass'' [Name ''name'', Name ''module'', Name ''package'']
             (Arr [optdot decl ''superclass'']) None),
           spread (makeTable ''Mixins'' [Name ''name'', Name ''module'', Name ''package'']
             (optdot decl ''mixins'') None),
           spread (if kind = Str ''mixin''
             then makeTable ''Parameters''
               [Name ''name'', Desc TYPE_COL, Desc DEFAULT, Name ''description'']
               (optdot decl ''parameters'') None
             else Inr []),
           spread (makeTable ''Fields''
             [Name ''name'', Name ''privacy'', Desc TYPE_COL, Desc DEFAULT,
              Name ''description'', Desc INHERITANCE]
             (Arr flds) None),
           spread (makeTable ''Methods''
             [Name ''name'', Name ''privacy'', Name ''description'', Desc PARAMETERS,
              Desc RETURN, Desc INHERITANCE]
             (Arr mths) None),
           spread (makeTable ''Events''
             [Name ''name'', Desc TYPE_COL, Name ''description'', Desc INHERITANCE]
             (optdot decl ''events'') None),
           spread (makeTable ''Attributes'' [Name ''name'', Desc ATTR_FIELD, Desc INHERITANCE]
             (optdot decl ''attributes'') None),
           spread (makeTable ''CSS Properties'' [Name ''name'', Desc DEFAULT, Name ''description'']
             (optdot decl ''cssProperties'') None),
           spread (makeTable ''Parts'' [Name ''name'', Name ''description'']
             (optdot decl ''parts'') None),
           spread (makeTable ''Slots'' [Name ''name'', Name ''description'']
             (optdot decl ''slots'') None)
         ]) (\<lambda>entries. Inr (filter_identity entries)))"

text \<open>
  Then the nodes that the \<open>if\<close> of lines 146 to 157 pushes: the Private API block, or
  nothing.
\<close>

definition privateApi :: "options option \<Rightarrow> jsval list \<Rightarrow> jsval list \<Rightarrow> error + node list" where
  "privateApi opts flds mths =
     (let makeTable = tableWithTitle opts
      in if private_of opts = Some ''details''
            \<and> (isLengthy (js_filter (or isPrivate isProtected) flds)
               \<or> isLengthy (js_filter (or isPrivate isProtected) mths))
         then spreads [
                Inr [Html ''<details><summary>Private API</summary>''],
                makeTable ''Fields''
                  [Name ''name'', Name ''privacy'', Desc TYPE_COL, Desc DEFAULT,
                   Name ''description'', Desc INHERITANCE]
                  (Arr (js_filter (or isPrivate isProtected) flds))
                  (Some \<lparr> headingLevel = None, filter_opt = Some identity \<rparr>),
                makeTable ''Methods''
                  [Name ''name'', Name ''privacy'', Name ''description'', Desc PARAMETERS,
                   Desc RETURN, Desc INHERITANCE]
                  (Arr (js_filter (or isPrivate isProtected) mths))
                  (Some \<lparr> headingLevel = None, filter_opt = Some identity \<rparr>),
                Inr [Html ''</details>'']
              ]
         else Inr [])"

text \<open>
  The whole callback: the destructuring \<open>const { kind, members = [] } = decl\<close>, the
  fields and methods, the two steps above, and the separator pushed when there are
  nodes (lines 159 to 162).
\<close>

definition declNodes :: "options option \<Rightarrow> jsval \<Rightarrow> error + node list" where
  "declNodes opts decl =
     (if nullish decl then Inl TypeError
      else
        let members = (case optdot decl ''members'' of Undefined \<Rightarrow> Arr [] | m \<Rightarrow> m)
        in and_then (array_of members) (\<lambda>ms.
          let fields = js_filter (kindIs ''field'') ms;
              methods = js_filter (kindIs ''method'') ms
          in and_then (mainNodes opts decl fields methods) (\<lambda>nodes.
             and_then (privateApi opts fields methods) (\<lambda>pushed.
               let nodes = nodes @ pushed
               in Inr (if nodes \<noteq> [] then nodes @ [line] else nodes)))))"

text \<open>
  \<open>makeModuleDoc\<close>: \<open>None\<close> is the \<open>undefined\<close> of the bare \<open>return\<close>.  Every entry of
  the returned array is a node, which its \<open>.filter(identity)\<close> keeps.
\<close>

definition makeModuleDoc :: "jsval \<Rightarrow> options option \<Rightarrow> error + node list option" where
  "makeModuleDoc modl opts =
     (let declarations = coalesce (optdot modl ''declarations'') (Arr []);
          exports = coalesce (optdot modl ''exports'') (Arr [])
      in if \<not> truthy (js_length declarations) \<and> \<not> truthy (js_length exports) then Inr None
         else
           let headingOffset = offset_of opts;
               makeTable = tableWithTitle opts
           in and_then (array_of declarations) (\<lambda>ds.
             let variables = js_filter (kindIs ''variable'') ds;
                 functions = js_filter (kindIs ''function'') ds
             in and_then (spreads [
                  and_then (dot modl ''path'') (\<lambda>path.
                    and_then (heading_node (1 + headingOffset) [InlineCode path, Text (Str '':'')])
                      (\<lambda>h. Inr [h])),
                  spreads (map (declNodes opts) ds),
                  makeTable ''Variables'' [Name ''name'', Name ''description'', Desc TYPE_COL]
                    (Arr variables) (Some \<lparr> headingLevel = Some 2, filter_opt = None \<rparr>),
                  Inr (if variables \<noteq> [] then [line] else []),
                  makeTable ''Functions''
                    [Name ''name'', Name ''description'', Desc PARAMETERS, Desc RETURN]
                    (Arr functions) (Some \<lparr> headingLevel = Some 2, filter_opt = None \<rparr>),
                  Inr (if functions \<noteq> [] then [line] else []),
                  and_then (dot modl ''exports'') (\<lambda>es.
                    makeTable ''Exports''
                      [Name ''kind'', Name ''name'', Desc DECLARATION, Desc MODULE, Desc PACKAGE]
                      es (Some \<lparr> headingLevel = Some 2, filter_opt = None \<rparr>))
                ]) (\<lambda>nodes. Inr (Some nodes))))"

text \<open>
  \<open>xs.flatMap(f)\<close> where \<open>f\<close> returns an array or \<open>undefined\<close>: an array is flattened
  into the result, \<open>undefined\<close> becomes one entry of it.
\<close>

definition flat_entries :: "node list option list \<Rightarrow> node option list" where
  "flat_entries docs = concat (map (\<lambda>d. case d of None \<Rightarrow> [None] | Some ns \<Rightarrow> map Some ns) docs)"

text \<open>
  Renders a custom elements manifest as Markdown.  The serializer \<open>lib/serialize.js\<close>
  turns the tree into text; it is a parameter here.
\<close>

definition customElementsManifestToMarkdown ::
  "(node \<Rightarrow> 'a) \<Rightarrow> jsval \<Rightarrow> options option \<Rightarrow> error + 'a"
where
  "customElementsManifestToMarkdown serialize manifest opts =
     and_then (dot manifest ''modules'') (\<lambda>modules.
       and_then (array_of modules) (\<lambda>ms.
         and_then (sequence (map (\<lambda>x. makeModuleDoc x opts) ms)) (\<lambda>docs.
           let tree = Root (filter_identity (flat_entries docs))
           in Inr (serialize tree))))"

section \<open>Well-typed, partially populated inputs\<close>

text \<open>
  The shape of the schema that the builders rely on: an optional sequence is absent or
  an array.  Every other field may be missing or hold any value.
\<close>

fun optional_seq :: "jsval \<Rightarrow> bool" where
  "optional_seq Undefined = True"
| "optional_seq Null = True"
| "optional_seq (Arr xs) = True"
| "optional_seq _ = False"

text \<open>An optional string: absent or a string.\<close>

fun optional_string :: "jsval \<Rightarrow> bool" where
  "optional_string Undefined = True"
| "optional_string Null = True"
| "optional_string (Str s) = True"
| "optional_string _ = False"

text \<open>A parameter: its \<open>name\<close> and its \<open>type.text\<close> are optional strings.\<close>

definition wf_param :: "jsval \<Rightarrow> bool" where
  "wf_param p \<longleftrightarrow>
     optional_string (optdot p ''name'')
   \<and> optional_string (optdot (optdot p ''type'') ''text'')"

text \<open>
  A member (or a function declaration): its \<open>parameters\<close> are an optional sequence of
  parameters.
\<close>

definition wf_member :: "jsval \<Rightarrow> bool" where
  "wf_member x \<longleftrightarrow>
     (case optdot x ''parameters'' of
        Undefined \<Rightarrow> True | Null \<Rightarrow> True | Arr ps \<Rightarrow> list_all wf_param ps | _ \<Rightarrow> False)"

text \<open>
  A declaration is there (not \<open>undefined\<close> or \<open>null\<close>); \<open>members\<close> is missing or
  an array of members (the default \<open>members = []\<close> does not replace a \<open>null\<close>); its
  \<open>parameters\<close> are those of a member; \<open>mixins\<close>, \<open>events\<close>, \<open>attributes\<close>,
  \<open>cssProperties\<close>, \<open>parts\<close> and \<open>slots\<close> are optional sequences.
\<close>

definition wf_decl :: "jsval \<Rightarrow> bool" where
  "wf_decl d \<longleftrightarrow>
     \<not> nullish d
   \<and> (case optdot d ''members'' of Undefined \<Rightarrow> True | Arr ms \<Rightarrow> list_all wf_member ms | _ \<Rightarrow> False)
   \<and> optional_seq (optdot d ''mixins'')
   \<and> wf_member d
   \<and> optional_seq (optdot d ''events'')
   \<and> optional_seq (optdot d ''attributes'')
   \<and> optional_seq (optdot d ''cssProperties'')
   \<and> optional_seq (optdot d ''parts'')
   \<and> optional_seq (optdot d ''slots'')"

text \<open>A module: optional sequences of declarations and of exports.\<close>

definition wf_module :: "jsval \<Rightarrow> bool" where
  "wf_module m \<longleftrightarrow>
     (case coalesce (optdot m ''declarations'') (Arr []) of
        Arr ds \<Rightarrow> list_all wf_decl ds | _ \<Rightarrow> False)
   \<and> optional_seq (optdot m ''exports'')"

text \<open>A manifest: an object with a \<open>modules\<close> array.\<close>

definition wf_manifest :: "jsval \<Rightarrow> bool" where
  "wf_manifest x \<longleftrightarrow>
     (case optdot x ''modules'' of Arr ms \<Rightarrow> list_all wf_module ms | _ \<Rightarrow> False)"

section \<open>The claims' vocabulary\<close>

text \<open>
  Following the spec (section 6): the configuration of a render call is
  \<open>{ headingOffset: integer (default 0), private: "hidden" | "details" | absent }\<close>.
\<close>

definition spec_policy :: "options option \<Rightarrow> string option" where
  "spec_policy opts = (case opts of None \<Rightarrow> None | Some c \<Rightarrow> privateOpt c)"

definition spec_offset :: "options option \<Rightarrow> int" where
  "spec_offset opts =
     (case opts of None \<Rightarrow> 0 | Some c \<Rightarrow> (case headingOffset c of None \<Rightarrow> 0 | Some k \<Rightarrow> k))"

text \<open>
  Following the spec (section 4.3, step 5): the heading of a table stands at
  \<open>opts.headingLevel\<close> (default 3) plus the configured offset.
\<close>

definition spec_depth :: "options option \<Rightarrow> table_opts option \<Rightarrow> int" where
  "spec_depth opts topts =
     (case topts of None \<Rightarrow> 3 | Some t \<Rightarrow> (case headingLevel t of None \<Rightarrow> 3 | Some l \<Rightarrow> l))
     + spec_offset opts"

text \<open>
  Following the spec (section 4.3, step 1): the rows a visibility policy lets through.
  "hidden" drops private members, "details" drops private and protected members, any
  other policy drops nothing.  A member's privacy is its \<open>privacy\<close> field.
\<close>

definition visible :: "string option \<Rightarrow> jsval \<Rightarrow> bool" where
  "visible policy x =
     (if policy = Some ''hidden'' then optdot x ''privacy'' \<noteq> Str ''private''
      else if policy = Some ''details''
        then optdot x ''privacy'' \<noteq> Str ''private'' \<and> optdot x ''privacy'' \<noteq> Str ''protected''
      else True)"

text \<open>
  Following the spec (section 4.3, steps 1 and 2): the entries of a declaration list
  that survive the active visibility filter (an explicit filter overrides the policy)
  and the removal of falsy entries.  An absent list has no entries.
\<close>

definition spec_rows :: "options option \<Rightarrow> table_opts option \<Rightarrow> jsval \<Rightarrow> jsval list" where
  "spec_rows opts topts decls0 =
     filter (\<lambda>x. truthy x \<and> (case (case topts of None \<Rightarrow> None | Some t \<Rightarrow> filter_opt t) of
                                   Some f \<Rightarrow> truthy (f x)
                                 | None \<Rightarrow> visible (spec_policy opts) x))
       (case decls0 of Arr xs \<Rightarrow> xs | _ \<Rightarrow> [])"

text \<open>
  The number of data rows in the tables of a node sequence that stand under a heading
  with the given title: a table section is a heading whose only child is the title,
  followed by a table whose first row is the header.
\<close>

fun data_rows :: "string \<Rightarrow> node list \<Rightarrow> nat" where
  "data_rows t (Heading l [Text (Str s)] # Table a rs # ns) =
     (if s = t then length rs - 1 else 0) + data_rows t ns"
| "data_rows t (n # ns) = data_rows t ns"
| "data_rows t [] = 0"

section \<open>Sequencing lemmas\<close>

lemma and_then_Inr_iff: "and_then r f = Inr y \<longleftrightarrow> (\<exists>v. r = Inr v \<and> f v = Inr y)"
  by (cases r) auto

lemma sequence_map_Inr: "sequence (map Inr xs) = Inr xs"
  by (induction xs) auto

lemma sequence_Inr_iff: "sequence rs = Inr vs \<longleftrightarrow> rs = map Inr vs"
proof (induction rs arbitrary: vs)
  case Nil
  show ?case by auto
next
  case (Cons r rs)
  show ?case
    by (cases r; cases vs) (auto simp: and_then_Inr_iff Cons.IH)
qed

lemma sequence_total:
  assumes "\<And>r. r \<in> set rs \<Longrightarrow> \<exists>v. r = Inr v"
  shows "\<exists>vs. sequence rs = Inr vs"
  using assms
proof (induction rs)
  case Nil
  show ?case by simp
next
  case (Cons r rs)
  from Cons.prems obtain v where "r = Inr v" by auto
  moreover from Cons obtain vs where "sequence rs = Inr vs" by auto
  ultimately show ?case by simp
qed

lemma sequence_map_Inr_nth:
  assumes "sequence (map f xs) = Inr ys"
  shows "length ys = length xs \<and> (\<forall>i<length xs. f (xs ! i) = Inr (ys ! i))"
proof -
  from assms have eq: "map f xs = map Inr ys" by (simp add: sequence_Inr_iff)
  then have len: "length xs = length ys" by (rule map_eq_imp_length_eq)
  have "f (xs ! i) = Inr (ys ! i)" if "i < length xs" for i
  proof -
    have "map f xs ! i = map Inr ys ! i" using eq by simp
    with that len show ?thesis by simp
  qed
  with len show ?thesis by simp
qed

lemma sequence_set:
  assumes "sequence rs = Inr xss" "xs \<in> set xss"
  shows "Inr xs \<in> set rs"
  using assms by (auto simp: sequence_Inr_iff)

lemma spreads_Nil: "spreads [] = Inr []"
  by (simp add: spreads_def)

lemma spreads_Cons:
  "spreads (r # rs) = and_then r (\<lambda>xs. and_then (spreads rs) (\<lambda>ys. Inr (xs @ ys)))"
  by (cases r; cases "sequence rs") (simp_all add: spreads_def)

lemma spreads_member:
  assumes "spreads rs = Inr xs" "x \<in> set xs"
  obtains ys where "Inr ys \<in> set rs" "x \<in> set ys"
proof -
  from assms(1) obtain xss where s: "sequence rs = Inr xss" and xs: "xs = concat xss"
    by (auto simp: spreads_def and_then_Inr_iff)
  from assms(2) xs obtain ys where "ys \<in> set xss" "x \<in> set ys" by auto
  with sequence_set [OF s] that show thesis by blast
qed

lemma spreads_total:
  assumes "\<And>r. r \<in> set rs \<Longrightarrow> \<exists>v. r = Inr v"
  shows "\<exists>xs. spreads rs = Inr xs"
proof -
  have "\<exists>vs. sequence rs = Inr vs" by (rule sequence_total) (rule assms)
  then show ?thesis by (auto simp: spreads_def)
qed

lemma spread_total: "\<exists>ns. r = Inr ns \<Longrightarrow> \<exists>es. spread r = Inr es"
  by (auto simp: spread_def)

lemma filter_identity_set: "set (filter_identity es) = {n. Some n \<in> set es}"
  by (induction es rule: filter_identity.induct) auto

lemma filter_identity_flat_entries:
  "filter_identity (flat_entries docs) =
     concat (map (\<lambda>d. case d of None \<Rightarrow> [] | Some ns \<Rightarrow> ns) docs)"
proof -
  have some: "filter_identity (map Some ns @ es) = ns @ filter_identity es" for ns es
    by (induction ns) auto
  show ?thesis
  proof (induction docs)
    case Nil
    show ?case by (simp add: flat_entries_def)
  next
    case (Cons d docs)
    then show ?case
      by (cases d) (auto simp: flat_entries_def some)
  qed
qed

lemma map_indexed_length [simp]: "length (map_indexed f k xs) = length xs"
  by (induction xs arbitrary: k) auto

lemma map_indexed_nth: "i < length xs \<Longrightarrow> map_indexed f k xs ! i = f (xs ! i) (k + i)"
proof (induction xs arbitrary: k i)
  case Nil
  then show ?case by simp
next
  case (Cons x xs)
  then show ?case by (cases i) auto
qed

section \<open>The visibility filter\<close>

lemma truthy_not_nullish: "truthy x \<Longrightarrow> \<not> nullish x"
  by (cases x) auto

lemma kindIs_truthy: "truthy (kindIs k x) \<Longrightarrow> truthy x"
  by (cases x) (simp_all add: kindIs_def)

lemma tagged_truthy: "truthy (or isPrivate isProtected x) \<Longrightarrow> truthy x"
  by (cases x) (simp_all add: or_def isPrivate_def isProtected_def)

lemma retained_filter:
  "retained opts topts xs = filter (\<lambda>x. truthy x \<and> truthy (by_filter opts topts x)) xs"
  by (simp add: retained_def js_filter_def identity_def conj_commute)

lemma retained_subset: "x \<in> set (retained opts topts xs) \<Longrightarrow> x \<in> set xs \<and> truthy x"
  by (simp add: retained_filter)


lemma retained_all:
  assumes "\<And>x. x \<in> set xs \<Longrightarrow> truthy x \<and> \<not> truthy (isPrivate x) \<and> \<not> truthy (isProtected x)"
    and "filter_of topts = None"
  shows "retained opts topts xs = xs"
  unfolding retained_filter
  by (rule filter_True)
    (use assms in \<open>auto simp: by_filter_def not_def or_def identity_def\<close>)

lemma retained_private_subset:
  "retained opts (Some \<lparr> headingLevel = None, filter_opt = Some identity \<rparr>)
     (js_filter (or isPrivate isProtected) xs) = js_filter (or isPrivate isProtected) xs"
  unfolding retained_filter
  by (rule filter_True)
    (auto simp: by_filter_def filter_of_def identity_def js_filter_def dest: tagged_truthy)

lemma surviving_Arr: "surviving opts topts (Arr xs) = Inr (retained opts topts xs)"
  by (simp add: surviving_def coalesce_def)

lemma surviving_absent: "nullish s \<Longrightarrow> surviving opts topts (Arr [s]) = Inr []"
  by (cases s) (simp_all add: surviving_def coalesce_def retained_def js_filter_def identity_def)

section \<open>Columns and tables\<close>

lemma getColumn_Inr:
  assumes "getColumn decls d = Inr c"
  shows "col_heading c = heading d
       \<and> col_cellType c = (case cellType d of None \<Rightarrow> Text | Some f \<Rightarrow> f)
       \<and> length (col_values c) = length decls
       \<and> (\<forall>i<length decls. get d (decls ! i) = Inr (col_values c ! i))"
proof -
  from assms obtain vs where vs: "sequence (map (\<lambda>x. get d x) decls) = Inr vs"
    and c: "c = \<lparr> col_heading = heading d,
             col_cellType = (case cellType d of None \<Rightarrow> Text | Some c \<Rightarrow> c),
             col_values = vs \<rparr>"
    by (auto simp: getColumn_def and_then_Inr_iff)
  from sequence_map_Inr_nth [OF vs] c show ?thesis by simp
qed

lemma getColumn_total:
  assumes "\<And>x. x \<in> set decls \<Longrightarrow> \<exists>v. get d x = Inr v"
  shows "\<exists>c. getColumn decls d = Inr c"
proof -
  have "\<exists>vs. sequence (map (\<lambda>x. get d x) decls) = Inr vs"
    by (rule sequence_total) (use assms in auto)
  then show ?thesis by (auto simp: getColumn_def)
qed

lemma columns_total:
  assumes "\<And>n x. n \<in> set names \<Longrightarrow> x \<in> set decls \<Longrightarrow> \<exists>v. get (getDescriptor n) x = Inr v"
  shows "\<exists>columns. sequence (map (compose (getColumn decls) getDescriptor) names) = Inr columns"
proof (rule sequence_total)
  fix r assume "r \<in> set (map (compose (getColumn decls) getDescriptor) names)"
  then obtain n where n: "n \<in> set names" and r: "r = getColumn decls (getDescriptor n)"
    by (auto simp: compose_def)
  from getColumn_total [of decls "getDescriptor n"] assms [OF n] r
  show "\<exists>v. r = Inr v" by blast
qed

lemma columns_nth:
  assumes "sequence (map (compose (getColumn decls) getDescriptor) names) = Inr columns"
  shows "length columns = length names"
    and "j < length names \<Longrightarrow> getColumn decls (getDescriptor (names ! j)) = Inr (columns ! j)"
  using sequence_map_Inr_nth [OF assms] by (auto simp: compose_def)

lemma cell_of_column:
  assumes "getColumn decls d = Inr c" "i < length decls"
  shows "\<exists>v. get d (decls ! i) = Inr v
       \<and> getCell i c = TableCell [if truthy v
            then (case cellType d of None \<Rightarrow> Text | Some f \<Rightarrow> f) v else Text (Str [])]"
  using getColumn_Inr [OF assms(1)] assms(2) by (simp add: getCell_def js_nth_def)

lemma tableWithTitle_empty:
  assumes "surviving opts topts decls0 = Inr []"
  shows "tableWithTitle opts title names decls0 topts = Inr []"
  using assms by (simp add: tableWithTitle_def isLengthy_def)

lemma heading_node_Inr_iff:
  "heading_node depth kids = Inr h \<longleftrightarrow> 1 \<le> depth \<and> h = Heading depth kids"
  by (auto simp: heading_node_def)

lemma tableWithTitle_rows:
  assumes "surviving opts topts decls0 = Inr decls" "decls \<noteq> []"
  shows "tableWithTitle opts title names decls0 topts =
     and_then (sequence (map (compose (getColumn decls) getDescriptor) names)) (\<lambda>columns.
       and_then (heading_node (level_of topts + offset_of opts) [Text (Str title)]) (\<lambda>h.
         Inr [ h,
               Table (replicate (length columns) Null)
                 (TableRow (map getHeading columns) # map_indexed (getRows columns) 0 decls) ]))"
  using assms by (simp add: tableWithTitle_def isLengthy_def repeat_def)

lemma tableWithTitle_Inr_cases:
  assumes "tableWithTitle opts title names decls0 topts = Inr ns" "ns \<noteq> []"
  obtains decls columns where "surviving opts topts decls0 = Inr decls" "decls \<noteq> []"
    "sequence (map (compose (getColumn decls) getDescriptor) names) = Inr columns"
    "1 \<le> level_of topts + offset_of opts"
    "ns = [ Heading (level_of topts + offset_of opts) [Text (Str title)],
            Table (replicate (length columns) Null)
              (TableRow (map getHeading columns) # map_indexed (getRows columns) 0 decls) ]"
proof -
  from assms(1) obtain decls where s: "surviving opts topts decls0 = Inr decls"
    by (auto simp: tableWithTitle_def and_then_Inr_iff)
  have ne: "decls \<noteq> []"
  proof
    assume "decls = []"
    with s tableWithTitle_empty [of opts topts decls0 title names] assms show False by simp
  qed
  from assms(1) tableWithTitle_rows [OF s ne, of title names]
  obtain columns where "sequence (map (compose (getColumn decls) getDescriptor) names) = Inr columns"
    "1 \<le> level_of topts + offset_of opts"
    "ns = [ Heading (level_of topts + offset_of opts) [Text (Str title)],
            Table (replicate (length columns) Null)
              (TableRow (map getHeading columns) # map_indexed (getRows columns) 0 decls) ]"
    by (auto simp: and_then_Inr_iff heading_node_Inr_iff)
  with s ne that show thesis by blast
qed

lemma table_nonempty_iff:
  assumes "tableWithTitle opts title names (Arr xs) topts = Inr V"
  shows "V \<noteq> [] \<longleftrightarrow> retained opts topts xs \<noteq> []"
proof
  assume "V \<noteq> []"
  with assms show "retained opts topts xs \<noteq> []"
    by (elim tableWithTitle_Inr_cases) (auto simp: surviving_Arr)
next
  assume ne: "retained opts topts xs \<noteq> []"
  from tableWithTitle_rows [OF surviving_Arr ne, of title names] assms
  have "and_then (sequence (map (compose (getColumn (retained opts topts xs)) getDescriptor) names))
     (\<lambda>columns. and_then (heading_node (level_of topts + offset_of opts) [Text (Str title)]) (\<lambda>h.
        Inr [ h,
               Table (replicate (length columns) Null)
                 (TableRow (map getHeading columns)
                  # map_indexed (getRows columns) 0 (retained opts topts xs)) ])) = Inr V"
    by simp
  then show "V \<noteq> []" by (auto simp: and_then_Inr_iff)
qed

lemma table_nodes:
  assumes "tableWithTitle opts title names decls0 topts = Inr ns" "n \<in> set ns"
  shows "(\<exists>l k. n = Heading l k) \<or> (\<exists>a r. n = Table a r)"
proof -
  from assms(2) have "ns \<noteq> []" by auto
  with assms(1) show ?thesis
    by (rule tableWithTitle_Inr_cases) (use assms(2) in auto)
qed

lemma table_heading_title:
  assumes "tableWithTitle opts title names decls0 topts = Inr ns" "Heading l [Text (Str s)] \<in> set ns"
  shows "s = title"
proof -
  from assms(2) have "ns \<noteq> []" by auto
  with assms(1) show ?thesis
    by (rule tableWithTitle_Inr_cases) (use assms(2) in auto)
qed

lemma table_total_rows:
  assumes "\<And>n x. n \<in> set names \<Longrightarrow> x \<in> set xs \<Longrightarrow> truthy x
             \<Longrightarrow> \<exists>v. get (getDescriptor n) x = Inr v"
    and "1 \<le> level_of topts + offset_of opts"
  shows "\<exists>ns. tableWithTitle opts title names (Arr xs) topts = Inr ns"
proof (cases "retained opts topts xs = []")
  case True
  then show ?thesis
    using tableWithTitle_empty [of opts topts "Arr xs" title names] by (simp add: surviving_Arr)
next
  case False
  have "\<exists>columns. sequence (map (compose (getColumn (retained opts topts xs)) getDescriptor) names)
          = Inr columns"
    by (rule columns_total) (use assms(1) retained_subset in blast)
  with tableWithTitle_rows [OF surviving_Arr False, of title names] assms(2) show ?thesis
    by (auto simp: heading_node_def)
qed

lemma table_total:
  assumes "optional_seq decls0"
    and "\<And>n x. n \<in> set names \<Longrightarrow> truthy x \<Longrightarrow> \<exists>v. get (getDescriptor n) x = Inr v"
    and "1 \<le> level_of topts + offset_of opts"
  shows "\<exists>ns. tableWithTitle opts title names decls0 topts = Inr ns"
proof (cases decls0)
  case (Arr xs)
  with table_total_rows [of names xs topts opts] assms(2,3) show ?thesis by blast
next
  case Undefined
  then have "surviving opts topts decls0 = Inr []"
    by (simp add: surviving_def coalesce_def retained_def js_filter_def)
  then show ?thesis using tableWithTitle_empty by blast
next
  case Null
  then have "surviving opts topts decls0 = Inr []"
    by (simp add: surviving_def coalesce_def retained_def js_filter_def)
  then show ?thesis using tableWithTitle_empty by blast
qed (use assms(1) in auto)

lemma spec_policy_eq: "spec_policy opts = private_of opts"
  by (simp add: spec_policy_def private_of_def)

lemma spec_offset_eq: "spec_offset opts = offset_of opts"
  by (simp add: spec_offset_def offset_of_def)

lemma spec_depth_eq: "spec_depth opts topts = level_of topts + offset_of opts"
  by (simp add: spec_depth_def level_of_def spec_offset_eq)

lemma surviving_spec_rows:
  assumes "optional_seq decls0"
  shows "surviving opts topts decls0 = Inr (spec_rows opts topts decls0)"
proof -
  have "retained opts topts xs =
      filter (\<lambda>x. truthy x \<and> (case (case topts of None \<Rightarrow> None | Some t \<Rightarrow> filter_opt t) of
                                   Some f \<Rightarrow> truthy (f x)
                                 | None \<Rightarrow> visible (spec_policy opts) x)) xs" for xs
    unfolding retained_filter spec_policy_eq
    by (rule filter_cong [OF refl])
      (auto simp: by_filter_def filter_of_def visible_def not_def or_def identity_def
        isPrivate_def isProtected_def split: option.splits)
  with assms show ?thesis
    by (cases decls0)
      (simp_all add: spec_rows_def surviving_def coalesce_def retained_def js_filter_def)
qed

text \<open>The definitions that evaluate the builders on a concrete input.\<close>

lemmas table_eval = tableWithTitle_def surviving_def coalesce_def retained_def js_filter_def
  by_filter_def filter_of_def private_of_def identity_def not_def or_def isPrivate_def
  isProtected_def isLengthy_def compose_def getColumn_def defaultDescriptor_def dot_def
  getRows_def getCell_def js_nth_def getHeading_def repeat_def level_of_def offset_of_def
  upper_def heading_node_def

lemmas descriptor_eval = TYPE_COL_def DEFAULT_def INHERITANCE_def PARAMETERS_def RETURN_def
  formatParameters_def ATTR_FIELD_def DECLARATION_def MODULE_def PACKAGE_def

lemmas module_eval = makeModuleDoc_def declNodes_def mainNodes_def privateApi_def spreads_def
  spread_def declarationHeading_def kindIs_def line_def customElementsManifestToMarkdown_def
  flat_entries_def

lemma name_total: "\<exists>v. get (defaultDescriptor n) x = Inr v"
  by (simp add: defaultDescriptor_def)

lemma accessors_total:
  assumes "truthy x"
  shows "\<exists>v. get TYPE_COL x = Inr v"
    and "\<exists>v. get DEFAULT x = Inr v"
    and "\<exists>v. get INHERITANCE x = Inr v"
    and "\<exists>v. get ATTR_FIELD x = Inr v"
    and "\<exists>v. get DECLARATION x = Inr v"
    and "\<exists>v. get MODULE x = Inr v"
    and "\<exists>v. get PACKAGE x = Inr v"
    and "\<exists>v. get RETURN x = Inr v"
  using truthy_not_nullish [OF assms]
  by (simp_all add: descriptor_eval dot_def)

lemma to_string_optional:
  assumes "optional_string v"
  shows "\<exists>s. to_string v = Inr s"
  using assms by (cases v) simp_all

lemma parameters_total:
  assumes "wf_member x"
  shows "\<exists>v. get PARAMETERS x = Inr v"
proof (cases "optdot x ''parameters''")
  case (Arr ps)
  with assms have wf: "list_all wf_param ps" by (simp add: wf_member_def)
  have "\<exists>strs. sequence (map (\<lambda>param.
               and_then (to_string (optdot param ''name'')) (\<lambda>name.
                 if truthy (optdot (optdot param ''type'') ''text'')
                 then and_then (to_string (optdot (optdot param ''type'') ''text'')) (\<lambda>text.
                        Inr (name @ '': '' @ text))
                 else Inr name)) ps) = Inr strs"
  proof (rule sequence_total)
    fix r
    assume "r \<in> set (map (\<lambda>param.
               and_then (to_string (optdot param ''name'')) (\<lambda>name.
                 if truthy (optdot (optdot param ''type'') ''text'')
                 then and_then (to_string (optdot (optdot param ''type'') ''text'')) (\<lambda>text.
                        Inr (name @ '': '' @ text))
                 else Inr name)) ps)"
    then obtain p where p: "p \<in> set ps" and r: "r =
               and_then (to_string (optdot p ''name'')) (\<lambda>name.
                 if truthy (optdot (optdot p ''type'') ''text'')
                 then and_then (to_string (optdot (optdot p ''type'') ''text'')) (\<lambda>text.
                        Inr (name @ '': '' @ text))
                 else Inr name)"
      by auto
    from wf p have "wf_param p" by (simp add: list_all_iff)
    then obtain n t where "to_string (optdot p ''name'') = Inr n"
      "to_string (optdot (optdot p ''type'') ''text'') = Inr t"
      unfolding wf_param_def by (meson to_string_optional)
    with r show "\<exists>v. r = Inr v" by simp
  qed
  with Arr show ?thesis
    by (auto simp: PARAMETERS_def formatParameters_def)
qed (use assms in \<open>simp_all add: PARAMETERS_def formatParameters_def wf_member_def\<close>)

text \<open>
  C5: an emitted table is rectangular.  Its alignment list, its header row and each of
  its data rows have as many entries as there are column specifications, it has one data
  row per surviving row, and the cell of row \<open>i\<close> and column \<open>j\<close> is the formatted value
  when the value is truthy and an empty text cell otherwise, so a missing value is
  rendered as an empty text cell and not omitted.
\<close>

theorem table_rectangular:
  assumes "tableWithTitle opts title names decls0 topts = Inr ns" and "ns \<noteq> []"
  shows "\<exists>decls hdr rows.
           surviving opts topts decls0 = Inr decls
         \<and> ns = [ Heading (level_of topts + offset_of opts) [Text (Str title)],
                  Table (replicate (length names) Null) (TableRow hdr # rows) ]
         \<and> length hdr = length names
         \<and> length rows = length decls
         \<and> (\<forall>i<length decls. \<exists>cells.
               rows ! i = TableRow cells \<and> length cells = length names
             \<and> (\<forall>j<length names. \<exists>v.
                   get (getDescriptor (names ! j)) (decls ! i) = Inr v
                 \<and> cells ! j = TableCell [if truthy v
                      then (case cellType (getDescriptor (names ! j)) of
                              None \<Rightarrow> Text | Some f \<Rightarrow> f) v
                      else Text (Str [])]))"
proof -
  from assms obtain decls columns where s: "surviving opts topts decls0 = Inr decls"
    and cols: "sequence (map (compose (getColumn decls) getDescriptor) names) = Inr columns"
    and ns: "ns = [ Heading (level_of topts + offset_of opts) [Text (Str title)],
            Table (replicate (length columns) Null)
              (TableRow (map getHeading columns) # map_indexed (getRows columns) 0 decls) ]"
    by (rule tableWithTitle_Inr_cases) blast
  note len = columns_nth(1) [OF cols]
  let ?rows = "map_indexed (getRows columns) 0 decls"
  have row: "\<exists>cells. ?rows ! i = TableRow cells \<and> length cells = length names
             \<and> (\<forall>j<length names. \<exists>v.
                   get (getDescriptor (names ! j)) (decls ! i) = Inr v
                 \<and> cells ! j = TableCell [if truthy v
                      then (case cellType (getDescriptor (names ! j)) of
                              None \<Rightarrow> Text | Some f \<Rightarrow> f) v
                      else Text (Str [])])" if i: "i < length decls" for i
  proof -
    have r: "?rows ! i = TableRow (map (getCell i) columns)"
      using i by (simp add: map_indexed_nth getRows_def)
    have "\<exists>v. get (getDescriptor (names ! j)) (decls ! i) = Inr v
            \<and> map (getCell i) columns ! j = TableCell [if truthy v
                 then (case cellType (getDescriptor (names ! j)) of
                         None \<Rightarrow> Text | Some f \<Rightarrow> f) v
                 else Text (Str [])]" if j: "j < length names" for j
      using cell_of_column [OF columns_nth(2) [OF cols j] i] j len by simp
    with r len show ?thesis by simp
  qed
  show ?thesis
    apply (rule exI [of _ decls])
    apply (rule exI [of _ "map getHeading columns"])
    apply (rule exI [of _ ?rows])
    using s ns len row by simp
qed

theorem table_rectangular_witness:
  "\<exists>hdr rows. tableWithTitle None ''Fields'' [Name ''name'', Desc DEFAULT]
       (Arr [Obj [(''name'', Str ''a'')], Obj [(''name'', Str ''b''), (''default'', Str ''1'')]]) None =
     Inr [Heading 3 [Text (Str ''Fields'')], Table [Null, Null] (TableRow hdr # rows)]
     \<and> length hdr = 2 \<and> length rows = 2
     \<and> rows ! 0 = TableRow [TableCell [Text (Str ''a'')], TableCell [Text (Str [])]]"
proof -
  have r: "tableWithTitle None ''Fields'' [Name ''name'', Desc DEFAULT]
       (Arr [Obj [(''name'', Str ''a'')], Obj [(''name'', Str ''b''), (''default'', Str ''1'')]]) None =
     Inr [Heading 3 [Text (Str ''Fields'')],
          Table [Null, Null]
            [TableRow [TableCell [Text (Str ''Name'')], TableCell [Text (Str ''Default'')]],
             TableRow [TableCell [Text (Str ''a'')], TableCell [Text (Str [])]],
             TableRow [TableCell [Text (Str ''b'')], TableCell [InlineCode (Str ''1'')]]]]"
    by (simp add: table_eval DEFAULT_def)
  from table_rectangular [OF r] r show ?thesis by simp
qed

text \<open>
  C6: a string column specification resolves to the descriptor whose heading is the
  capitalized name and whose accessor is \<open>x?.[name]\<close>, and its column is formatted as
  plain text; a descriptor object is passed through unchanged, and its column is
  formatted by its \<open>cellType\<close>, plain text when it has none.
\<close>

theorem descriptor_resolution:
  "getDescriptor (Name name) =
      \<lparr> heading = capital name, get = (\<lambda>x. Inr (optdot x name)), cellType = None \<rparr>
   \<and> getColumn decls (getDescriptor (Name name)) =
      Inr \<lparr> col_heading = capital name, col_cellType = Text,
            col_values = map (\<lambda>x. optdot x name) decls \<rparr>
   \<and> getDescriptor (Desc d) = d
   \<and> (\<forall>c. getColumn decls (getDescriptor (Desc d)) = Inr c \<longrightarrow>
        col_heading c = heading d
      \<and> col_cellType c = (case cellType d of None \<Rightarrow> Text | Some f \<Rightarrow> f))"
proof -
  have "sequence (map (\<lambda>x. Inr (optdot x name)) decls) = Inr (map (\<lambda>x. optdot x name) decls)"
    using sequence_map_Inr [of "map (\<lambda>x. optdot x name) decls"] by (simp add: comp_def)
  moreover have "col_heading c = heading d
      \<and> col_cellType c = (case cellType d of None \<Rightarrow> Text | Some f \<Rightarrow> f)"
    if "getColumn decls d = Inr c" for c
    using getColumn_Inr [OF that] by simp
  ultimately show ?thesis
    by (simp add: defaultDescriptor_def getColumn_def)
qed

theorem descriptor_resolution_witness:
  "getColumn [Obj [(''name'', Str ''a'')], Obj []] (getDescriptor (Name ''name'')) =
      Inr \<lparr> col_heading = ''Name'', col_cellType = Text, col_values = [Str ''a'', Undefined] \<rparr>
   \<and> getDescriptor (Desc DEFAULT) = DEFAULT"
  using descriptor_resolution [of "''name''" "[Obj [(''name'', Str ''a'')], Obj []]" DEFAULT]
  by (simp add: getColumn_def defaultDescriptor_def upper_def)

text \<open>
  C10: a cell whose projected value is falsy (\<open>undefined\<close>, \<open>null\<close>, the empty string,
  0, \<open>false\<close>) is an empty plain-text cell, whatever the column's formatter is: the
  formatter is not applied to the value.
\<close>

theorem falsy_value_empty_cell:
  assumes "\<not> truthy (js_nth (col_values c) i)"
  shows "getCell i (c\<lparr>col_cellType := f\<rparr>) = TableCell [Text (Str [])]"
  using assms by (simp add: getCell_def)

theorem falsy_value_empty_cell_witness:
  "getCell 0 \<lparr>col_heading = ''Default'', col_cellType = InlineCode, col_values = [Str [], Num ''0'', Bool False, Undefined, Null]\<rparr>
     = TableCell [Text (Str [])]
   \<and> getCell 1 \<lparr>col_heading = ''Default'', col_cellType = InlineCode, col_values = [Str [], Num ''0'', Bool False, Undefined, Null]\<rparr>
     = TableCell [Text (Str [])]
   \<and> getCell 2 \<lparr>col_heading = ''Default'', col_cellType = InlineCode, col_values = [Str [], Num ''0'', Bool False, Undefined, Null]\<rparr>
     = TableCell [Text (Str [])]"
  using falsy_value_empty_cell [of "\<lparr>col_heading = ''Default'', col_cellType = Text, col_values = [Str [], Num ''0'', Bool False, Undefined, Null]\<rparr>" 0 InlineCode]
    falsy_value_empty_cell [of "\<lparr>col_heading = ''Default'', col_cellType = Text, col_values = [Str [], Num ''0'', Bool False, Undefined, Null]\<rparr>" 1 InlineCode]
    falsy_value_empty_cell [of "\<lparr>col_heading = ''Default'', col_cellType = Text, col_values = [Str [], Num ''0'', Bool False, Undefined, Null]\<rparr>" 2 InlineCode]
  by (simp add: js_nth_def)




section \<open>The nodes of a declaration\<close>

lemma declarationHeading_Inr:
  assumes "declarationHeading opts decl = Inr h"
  shows "\<exists>a b kids. h = Heading (2 + offset_of opts) (a # b # kids)"
  using assms
  by (auto simp: declarationHeading_def Let_def and_then_Inr_iff heading_node_Inr_iff
      split: if_splits)

lemma heading_entry:
  assumes "Inr ys = (if optdot decl ''kind'' \<noteq> Str ''mixin'' \<and> optdot decl ''kind'' \<noteq> Str ''class''
            then Inr [None]
            else and_then (declarationHeading opts decl) (\<lambda>h. Inr [Some h]))"
    and "Some n \<in> set ys"
  shows "\<exists>a b kids. n = Heading (2 + offset_of opts) (a # b # kids)"
proof -
  from assms(1) [symmetric] assms(2) have "declarationHeading opts decl = Inr n"
    by (auto simp: and_then_Inr_iff split: if_splits)
  then show ?thesis by (rule declarationHeading_Inr)
qed

lemma spread_table_nodes:
  assumes "spread (tableWithTitle opts title names decls0 topts) = Inr es" "Some n \<in> set es"
  shows "(\<exists>l k. n = Heading l k) \<or> (\<exists>a r. n = Table a r)"
proof -
  from assms obtain ns where "tableWithTitle opts title names decls0 topts = Inr ns" "n \<in> set ns"
    by (auto simp: spread_def and_then_Inr_iff)
  then show ?thesis by (rule table_nodes)
qed

lemma spread_table_heading_title:
  assumes "spread (tableWithTitle opts title names decls0 topts) = Inr es"
    and "Some (Heading l [Text (Str s)]) \<in> set es"
  shows "s = title"
proof -
  from assms obtain ns where "tableWithTitle opts title names decls0 topts = Inr ns"
    "Heading l [Text (Str s)] \<in> set ns"
    by (auto simp: spread_def and_then_Inr_iff)
  then show ?thesis by (rule table_heading_title)
qed

lemma mainNodes_entries:
  assumes "mainNodes opts decl flds mths = Inr main" "n \<in> set main"
  obtains ys where "Some n \<in> set ys" and
    "Inr ys \<in> set [
           (if optdot decl ''kind'' \<noteq> Str ''mixin'' \<and> optdot decl ''kind'' \<noteq> Str ''class'' then Inr [None]
            else and_then (declarationHeading opts decl) (\<lambda>h. Inr [Some h])),
           spread (tableWithTitle opts ''Superclass'' [Name ''name'', Name ''module'', Name ''package'']
             (Arr [optdot decl ''superclass'']) None),
           spread (tableWithTitle opts ''Mixins'' [Name ''name'', Name ''module'', Name ''package'']
             (optdot decl ''mixins'') None),
           spread (if optdot decl ''kind'' = Str ''mixin''
             then tableWithTitle opts ''Parameters''
               [Name ''name'', Desc TYPE_COL, Desc DEFAULT, Name ''description'']
               (optdot decl ''parameters'') None
             else Inr []),
           spread (tableWithTitle opts ''Fields''
             [Name ''name'', Name ''privacy'', Desc TYPE_COL, Desc DEFAULT,
              Name ''description'', Desc INHERITANCE]
             (Arr flds) None),
           spread (tableWithTitle opts ''Methods''
             [Name ''name'', Name ''privacy'', Name ''description'', Desc PARAMETERS,
              Desc RETURN, Desc INHERITANCE]
             (Arr mths) None),
           spread (tableWithTitle opts ''Events''
             [Name ''name'', Desc TYPE_COL, Name ''description'', Desc INHERITANCE]
             (optdot decl ''events'') None),
           spread (tableWithTitle opts ''Attributes'' [Name ''name'', Desc ATTR_FIELD, Desc INHERITANCE]
             (optdot decl ''attributes'') None),
           spread (tableWithTitle opts ''CSS Properties'' [Name ''name'', Desc DEFAULT, Name ''description'']
             (optdot decl ''cssProperties'') None),
           spread (tableWithTitle opts ''Parts'' [Name ''name'', Name ''description'']
             (optdot decl ''parts'') None),
           spread (tableWithTitle opts ''Slots'' [Name ''name'', Name ''description'']
             (optdot decl ''slots'') None)
         ]"
proof -
  from assms obtain es where
    es: "spreads [
           (if optdot decl ''kind'' \<noteq> Str ''mixin'' \<and> optdot decl ''kind'' \<noteq> Str ''class'' then Inr [None]
            else and_then (declarationHeading opts decl) (\<lambda>h. Inr [Some h])),
           spread (tableWithTitle opts ''Superclass'' [Name ''name'', Name ''module'', Name ''package'']
             (Arr [optdot decl ''superclass'']) None),
           spread (tableWithTitle opts ''Mixins'' [Name ''name'', Name ''module'', Name ''package'']
             (optdot decl ''mixins'') None),
           spread (if optdot decl ''kind'' = Str ''mixin''
             then tableWithTitle opts ''Parameters''
               [Name ''name'', Desc TYPE_COL, Desc DEFAULT, Name ''description'']
               (optdot decl ''parameters'') None
             else Inr []),
           spread (tableWithTitle opts ''Fields''
             [Name ''name'', Name ''privacy'', Desc TYPE_COL, Desc DEFAULT,
              Name ''description'', Desc INHERITANCE]
             (Arr flds) None),
           spread (tableWithTitle opts ''Methods''
             [Name ''name'', Name ''privacy'', Name ''description'', Desc PARAMETERS,
              Desc RETURN, Desc INHERITANCE]
             (Arr mths) None),
           spread (tableWithTitle opts ''Events''
             [Name ''name'', Desc TYPE_COL, Name ''description'', Desc INHERITANCE]
             (optdot decl ''events'') None),
           spread (tableWithTitle opts ''Attributes'' [Name ''name'', Desc ATTR_FIELD, Desc INHERITANCE]
             (optdot decl ''attributes'') None),
           spread (tableWithTitle opts ''CSS Properties'' [Name ''name'', Desc DEFAULT, Name ''description'']
             (optdot decl ''cssProperties'') None),
           spread (tableWithTitle opts ''Parts'' [Name ''name'', Name ''description'']
             (optdot decl ''parts'') None),
           spread (tableWithTitle opts ''Slots'' [Name ''name'', Name ''description'']
             (optdot decl ''slots'') None)
         ] = Inr es" and n: "Some n \<in> set es"
    by (auto simp: mainNodes_def Let_def and_then_Inr_iff filter_identity_set)
  from es n that show thesis
    by (rule spreads_member)
qed

lemma mainNodes_nodes:
  assumes "mainNodes opts decl flds mths = Inr main" "n \<in> set main"
  shows "(\<exists>l k. n = Heading l k) \<or> (\<exists>a r. n = Table a r)"
proof -
  from assms obtain ys where ys: "Some n \<in> set ys" and
    r: "Inr ys \<in> set [
           (if optdot decl ''kind'' \<noteq> Str ''mixin'' \<and> optdot decl ''kind'' \<noteq> Str ''class'' then Inr [None]
            else and_then (declarationHeading opts decl) (\<lambda>h. Inr [Some h])),
           spread (tableWithTitle opts ''Superclass'' [Name ''name'', Name ''module'', Name ''package'']
             (Arr [optdot decl ''superclass'']) None),
           spread (tableWithTitle opts ''Mixins'' [Name ''name'', Name ''module'', Name ''package'']
             (optdot decl ''mixins'') None),
           spread (if optdot decl ''kind'' = Str ''mixin''
             then tableWithTitle opts ''Parameters''
               [Name ''name'', Desc TYPE_COL, Desc DEFAULT, Name ''description'']
               (optdot decl ''parameters'') None
             else Inr []),
           spread (tableWithTitle opts ''Fields''
             [Name ''name'', Name ''privacy'', Desc TYPE_COL, Desc DEFAULT,
              Name ''description'', Desc INHERITANCE]
             (Arr flds) None),
           spread (tableWithTitle opts ''Methods''
             [Name ''name'', Name ''privacy'', Name ''description'', Desc PARAMETERS,
              Desc RETURN, Desc INHERITANCE]
             (Arr mths) None),
           spread (tableWithTitle opts ''Events''
             [Name ''name'', Desc TYPE_COL, Name ''description'', Desc INHERITANCE]
             (optdot decl ''events'') None),
           spread (tableWithTitle opts ''Attributes'' [Name ''name'', Desc ATTR_FIELD, Desc INHERITANCE]
             (optdot decl ''attributes'') None),
           spread (tableWithTitle opts ''CSS Properties'' [Name ''name'', Desc DEFAULT, Name ''description'']
             (optdot decl ''cssProperties'') None),
           spread (tableWithTitle opts ''Parts'' [Name ''name'', Name ''description'']
             (optdot decl ''parts'') None),
           spread (tableWithTitle opts ''Slots'' [Name ''name'', Name ''description'']
             (optdot decl ''slots'') None)
         ]"
    by (rule mainNodes_entries)
  have hd: "\<exists>l k. n = Heading l k"
    if "Inr ys = (if optdot decl ''kind'' \<noteq> Str ''mixin'' \<and> optdot decl ''kind'' \<noteq> Str ''class'' then Inr [None]
            else and_then (declarationHeading opts decl) (\<lambda>h. Inr [Some h]))"
    using heading_entry [OF that ys] by auto
  have par: "(\<exists>l k. n = Heading l k) \<or> (\<exists>a r. n = Table a r)"
    if "Inr ys = spread (if optdot decl ''kind'' = Str ''mixin''
             then tableWithTitle opts ''Parameters''
               [Name ''name'', Desc TYPE_COL, Desc DEFAULT, Name ''description'']
               (optdot decl ''parameters'') None
             else Inr [])"
    using that ys spread_table_nodes [of opts "''Parameters''" _ "optdot decl ''parameters''" None ys n]
    by (auto simp: spread_def split: if_splits)
  from r hd par ys show ?thesis
    by (auto dest: spread_table_nodes [OF sym])
qed

lemma mainNodes_no_superclass:
  assumes "mainNodes opts decl flds mths = Inr main" "nullish (optdot decl ''superclass'')"
  shows "Heading l [Text (Str ''Superclass'')] \<notin> set main"
proof
  let ?n = "Heading l [Text (Str ''Superclass'')]"
  assume "?n \<in> set main"
  with assms(1) obtain ys where ys: "Some ?n \<in> set ys" and
    r: "Inr ys \<in> set [
           (if optdot decl ''kind'' \<noteq> Str ''mixin'' \<and> optdot decl ''kind'' \<noteq> Str ''class'' then Inr [None]
            else and_then (declarationHeading opts decl) (\<lambda>h. Inr [Some h])),
           spread (tableWithTitle opts ''Superclass'' [Name ''name'', Name ''module'', Name ''package'']
             (Arr [optdot decl ''superclass'']) None),
           spread (tableWithTitle opts ''Mixins'' [Name ''name'', Name ''module'', Name ''package'']
             (optdot decl ''mixins'') None),
           spread (if optdot decl ''kind'' = Str ''mixin''
             then tableWithTitle opts ''Parameters''
               [Name ''name'', Desc TYPE_COL, Desc DEFAULT, Name ''description'']
               (optdot decl ''parameters'') None
             else Inr []),
           spread (tableWithTitle opts ''Fields''
             [Name ''name'', Name ''privacy'', Desc TYPE_COL, Desc DEFAULT,
              Name ''description'', Desc INHERITANCE]
             (Arr flds) None),
           spread (tableWithTitle opts ''Methods''
             [Name ''name'', Name ''privacy'', Name ''description'', Desc PARAMETERS,
              Desc RETURN, Desc INHERITANCE]
             (Arr mths) None),
           spread (tableWithTitle opts ''Events''
             [Name ''name'', Desc TYPE_COL, Name ''description'', Desc INHERITANCE]
             (optdot decl ''events'') None),
           spread (tableWithTitle opts ''Attributes'' [Name ''name'', Desc ATTR_FIELD, Desc INHERITANCE]
             (optdot decl ''attributes'') None),
           spread (tableWithTitle opts ''CSS Properties'' [Name ''name'', Desc DEFAULT, Name ''description'']
             (optdot decl ''cssProperties'') None),
           spread (tableWithTitle opts ''Parts'' [Name ''name'', Name ''description'']
             (optdot decl ''parts'') None),
           spread (tableWithTitle opts ''Slots'' [Name ''name'', Name ''description'']
             (optdot decl ''slots'') None)
         ]"
    by (rule mainNodes_entries)
  have hd: False
    if "Inr ys = (if optdot decl ''kind'' \<noteq> Str ''mixin'' \<and> optdot decl ''kind'' \<noteq> Str ''class'' then Inr [None]
            else and_then (declarationHeading opts decl) (\<lambda>h. Inr [Some h]))"
    using heading_entry [OF that ys] by auto
  have sup: False
    if "Inr ys = spread (tableWithTitle opts ''Superclass'' [Name ''name'', Name ''module'', Name ''package'']
             (Arr [optdot decl ''superclass'']) None)"
    using that ys tableWithTitle_empty [OF surviving_absent [OF assms(2)], where title = "''Superclass''"]
    by (simp add: spread_def)
  have par: False
    if "Inr ys = spread (if optdot decl ''kind'' = Str ''mixin''
             then tableWithTitle opts ''Parameters''
               [Name ''name'', Desc TYPE_COL, Desc DEFAULT, Name ''description'']
               (optdot decl ''parameters'') None
             else Inr [])"
    using that ys spread_table_heading_title [of opts "''Parameters''" _ "optdot decl ''parameters''" None ys l "''Superclass''"]
    by (auto simp: spread_def split: if_splits)
  from r hd sup par ys show False
    by (auto dest: spread_table_heading_title [OF sym])
qed

lemma declNodes_Inr:
  assumes "declNodes opts decl = Inr nodes"
  obtains ms main pushed where
    "array_of (case optdot decl ''members'' of Undefined \<Rightarrow> Arr [] | m \<Rightarrow> m) = Inr ms"
    "mainNodes opts decl (js_filter (kindIs ''field'') ms) (js_filter (kindIs ''method'') ms) = Inr main"
    "privateApi opts (js_filter (kindIs ''field'') ms) (js_filter (kindIs ''method'') ms) = Inr pushed"
    "nodes = (if main @ pushed \<noteq> [] then main @ pushed @ [line] else [])"
proof (cases "nullish decl")
  case True
  with assms show thesis by (simp add: declNodes_def)
next
  case False
  with assms that show thesis
    by (auto simp: declNodes_def Let_def and_then_Inr_iff)
qed

lemma privateApi_Inr:
  assumes "privateApi opts flds mths = Inr pushed"
  shows "if private_of opts = Some ''details''
            \<and> (js_filter (or isPrivate isProtected) flds \<noteq> []
               \<or> js_filter (or isPrivate isProtected) mths \<noteq> [])
         then \<exists>F M. pushed = Html ''<details><summary>Private API</summary>'' # F @ M @ [Html ''</details>'']
              \<and> tableWithTitle opts ''Fields''
                  [Name ''name'', Name ''privacy'', Desc TYPE_COL, Desc DEFAULT,
                   Name ''description'', Desc INHERITANCE]
                  (Arr (js_filter (or isPrivate isProtected) flds))
                  (Some \<lparr> headingLevel = None, filter_opt = Some identity \<rparr>) = Inr F
              \<and> tableWithTitle opts ''Methods''
                  [Name ''name'', Name ''privacy'', Name ''description'', Desc PARAMETERS,
                   Desc RETURN, Desc INHERITANCE]
                  (Arr (js_filter (or isPrivate isProtected) mths))
                  (Some \<lparr> headingLevel = None, filter_opt = Some identity \<rparr>) = Inr M
         else pushed = []"
  using assms
  by (auto simp: privateApi_def Let_def isLengthy_def spreads_Cons spreads_Nil and_then_Inr_iff
      split: if_splits)

lemma declNodes_no_superclass:
  assumes "declNodes opts decl = Inr nodes" "nullish (optdot decl ''superclass'')"
  shows "Heading l [Text (Str ''Superclass'')] \<notin> set nodes"
proof -
  from assms(1) obtain ms main pushed where
    main: "mainNodes opts decl (js_filter (kindIs ''field'') ms) (js_filter (kindIs ''method'') ms) = Inr main"
    and pushed: "privateApi opts (js_filter (kindIs ''field'') ms) (js_filter (kindIs ''method'') ms) = Inr pushed"
    and nodes: "nodes = (if main @ pushed \<noteq> [] then main @ pushed @ [line] else [])"
    by (rule declNodes_Inr)
  have "Heading l [Text (Str ''Superclass'')] \<notin> set pushed"
    using privateApi_Inr [OF pushed]
    by (auto split: if_splits dest: table_heading_title)
  with mainNodes_no_superclass [OF main assms(2)] nodes show ?thesis
    by (auto simp: line_def)
qed

text \<open>
  C4: the nodes of a declaration contain the opening of the Private API block exactly
  when the policy is "details" and a field or a method of the declaration is private or
  protected.  The block is then the last thing before the separator: its opening, the
  Fields table and the Methods table built from the private or protected fields and
  methods with the identity filter, under which every one of them is a row, and its
  closing.  For a class with two public fields and one private field the main Fields
  table has two data rows and the block's Fields table one.
\<close>

theorem private_api_block:
  assumes "declNodes opts decl = Inr nodes"
  shows "\<exists>ms. array_of (case optdot decl ''members'' of Undefined \<Rightarrow> Arr [] | m \<Rightarrow> m) = Inr ms
    \<and> (let privFields = js_filter (or isPrivate isProtected) (js_filter (kindIs ''field'') ms);
            privMethods = js_filter (or isPrivate isProtected) (js_filter (kindIs ''method'') ms);
            bypass = Some \<lparr> headingLevel = None, filter_opt = Some identity \<rparr>
        in (Html ''<details><summary>Private API</summary>'' \<in> set nodes
              \<longleftrightarrow> private_of opts = Some ''details'' \<and> (privFields \<noteq> [] \<or> privMethods \<noteq> []))
         \<and> (Html ''<details><summary>Private API</summary>'' \<in> set nodes \<longrightarrow>
              (\<exists>main F M.
                  nodes = main @ [Html ''<details><summary>Private API</summary>''] @ F @ M
                            @ [Html ''</details>'', line]
                \<and> tableWithTitle opts ''Fields''
                    [Name ''name'', Name ''privacy'', Desc TYPE_COL, Desc DEFAULT,
                     Name ''description'', Desc INHERITANCE]
                    (Arr privFields) bypass = Inr F
                \<and> tableWithTitle opts ''Methods''
                    [Name ''name'', Name ''privacy'', Name ''description'', Desc PARAMETERS,
                     Desc RETURN, Desc INHERITANCE]
                    (Arr privMethods) bypass = Inr M
                \<and> surviving opts bypass (Arr privFields) = Inr privFields
                \<and> surviving opts bypass (Arr privMethods) = Inr privMethods)))"
proof -
  let ?open = "Html ''<details><summary>Private API</summary>''"
  from assms obtain ms main pushed where
    ms: "array_of (case optdot decl ''members'' of Undefined \<Rightarrow> Arr [] | m \<Rightarrow> m) = Inr ms"
    and main: "mainNodes opts decl (js_filter (kindIs ''field'') ms) (js_filter (kindIs ''method'') ms) = Inr main"
    and pushed: "privateApi opts (js_filter (kindIs ''field'') ms) (js_filter (kindIs ''method'') ms) = Inr pushed"
    and nodes: "nodes = (if main @ pushed \<noteq> [] then main @ pushed @ [line] else [])"
    by (rule declNodes_Inr)
  let ?pf = "js_filter (or isPrivate isProtected) (js_filter (kindIs ''field'') ms)"
  let ?pm = "js_filter (or isPrivate isProtected) (js_filter (kindIs ''method'') ms)"
  let ?cond = "private_of opts = Some ''details'' \<and> (?pf \<noteq> [] \<or> ?pm \<noteq> [])"
  have no_main: "?open \<notin> set main"
    using mainNodes_nodes [OF main] by auto
  show ?thesis
  proof (cases ?cond)
    case False
    with privateApi_Inr [OF pushed] have "pushed = []" by auto
    with nodes no_main have "?open \<notin> set nodes" by (auto simp: line_def)
    with ms False show ?thesis by (auto simp: Let_def)
  next
    case True
    with privateApi_Inr [OF pushed] obtain F M where
      p: "pushed = ?open # F @ M @ [Html ''</details>'']"
      and F: "tableWithTitle opts ''Fields''
                  [Name ''name'', Name ''privacy'', Desc TYPE_COL, Desc DEFAULT,
                   Name ''description'', Desc INHERITANCE]
                  (Arr ?pf) (Some \<lparr> headingLevel = None, filter_opt = Some identity \<rparr>) = Inr F"
      and M: "tableWithTitle opts ''Methods''
                  [Name ''name'', Name ''privacy'', Name ''description'', Desc PARAMETERS,
                   Desc RETURN, Desc INHERITANCE]
                  (Arr ?pm) (Some \<lparr> headingLevel = None, filter_opt = Some identity \<rparr>) = Inr M"
      by auto
    from nodes p have n: "nodes = main @ [?open] @ F @ M @ [Html ''</details>'', line]"
      by simp
    then have "?open \<in> set nodes" by simp
    with ms True n F M show ?thesis
      by (auto simp: Let_def surviving_Arr retained_private_subset)
  qed
qed

theorem private_api_block_witness:
  "declNodes (Some \<lparr>headingOffset = None, privateOpt = Some ''details''\<rparr>)
     (Obj [(''kind'', Str ''class''), (''name'', Str ''A''), (''members'', Arr [
        Obj [(''kind'', Str ''field''), (''name'', Str ''a'')],
        Obj [(''kind'', Str ''field''), (''name'', Str ''b''), (''privacy'', Str ''public'')],
        Obj [(''kind'', Str ''field''), (''name'', Str ''c''), (''privacy'', Str ''private'')]])]) =
   Inr [Heading 2 [Text (Str ''class: ''), InlineCode (Str ''A'')],
        Heading 3 [Text (Str ''Fields'')],
        Table [Null, Null, Null, Null, Null, Null]
         [TableRow [TableCell [Text (Str ''Name'')], TableCell [Text (Str ''Privacy'')],
                    TableCell [Text (Str ''Type'')], TableCell [Text (Str ''Default'')],
                    TableCell [Text (Str ''Description'')],
                    TableCell [Text (Str ''Inherited From'')]],
          TableRow [TableCell [Text (Str ''a'')], TableCell [Text (Str [])],
                    TableCell [Text (Str [])], TableCell [Text (Str [])],
                    TableCell [Text (Str [])], TableCell [Text (Str [])]],
          TableRow [TableCell [Text (Str ''b'')], TableCell [Text (Str ''public'')],
                    TableCell [Text (Str [])], TableCell [Text (Str [])],
                    TableCell [Text (Str [])], TableCell [Text (Str [])]]],
        Html ''<details><summary>Private API</summary>'',
        Heading 3 [Text (Str ''Fields'')],
        Table [Null, Null, Null, Null, Null, Null]
         [TableRow [TableCell [Text (Str ''Name'')], TableCell [Text (Str ''Privacy'')],
                    TableCell [Text (Str ''Type'')], TableCell [Text (Str ''Default'')],
                    TableCell [Text (Str ''Description'')],
                    TableCell [Text (Str ''Inherited From'')]],
          TableRow [TableCell [Text (Str ''c'')], TableCell [Text (Str ''private'')],
                    TableCell [Text (Str [])], TableCell [Text (Str [])],
                    TableCell [Text (Str [])], TableCell [Text (Str [])]]],
        Html ''</details>'', Html ''<hr/>'']
   \<and> surviving (Some \<lparr>headingOffset = None, privateOpt = Some ''details''\<rparr>)
        (Some \<lparr> headingLevel = None, filter_opt = Some identity \<rparr>)
        (Arr [Obj [(''kind'', Str ''field''), (''name'', Str ''c''), (''privacy'', Str ''private'')]])
       = Inr [Obj [(''kind'', Str ''field''), (''name'', Str ''c''), (''privacy'', Str ''private'')]]"
proof -
  let ?d = "Some \<lparr>headingOffset = None, privateOpt = Some ''details''\<rparr>"
  let ?c = "Obj [(''kind'', Str ''class''), (''name'', Str ''A''), (''members'', Arr [
        Obj [(''kind'', Str ''field''), (''name'', Str ''a'')],
        Obj [(''kind'', Str ''field''), (''name'', Str ''b''), (''privacy'', Str ''public'')],
        Obj [(''kind'', Str ''field''), (''name'', Str ''c''), (''privacy'', Str ''private'')]])]"
  have r: "declNodes ?d ?c =
   Inr [Heading 2 [Text (Str ''class: ''), InlineCode (Str ''A'')],
        Heading 3 [Text (Str ''Fields'')],
        Table [Null, Null, Null, Null, Null, Null]
         [TableRow [TableCell [Text (Str ''Name'')], TableCell [Text (Str ''Privacy'')],
                    TableCell [Text (Str ''Type'')], TableCell [Text (Str ''Default'')],
                    TableCell [Text (Str ''Description'')],
                    TableCell [Text (Str ''Inherited From'')]],
          TableRow [TableCell [Text (Str ''a'')], TableCell [Text (Str [])],
                    TableCell [Text (Str [])], TableCell [Text (Str [])],
                    TableCell [Text (Str [])], TableCell [Text (Str [])]],
          TableRow [TableCell [Text (Str ''b'')], TableCell [Text (Str ''public'')],
                    TableCell [Text (Str [])], TableCell [Text (Str [])],
                    TableCell [Text (Str [])], TableCell [Text (Str [])]]],
        Html ''<details><summary>Private API</summary>'',
        Heading 3 [Text (Str ''Fields'')],
        Table [Null, Null, Null, Null, Null, Null]
         [TableRow [TableCell [Text (Str ''Name'')], TableCell [Text (Str ''Privacy'')],
                    TableCell [Text (Str ''Type'')], TableCell [Text (Str ''Default'')],
                    TableCell [Text (Str ''Description'')],
                    TableCell [Text (Str ''Inherited From'')]],
          TableRow [TableCell [Text (Str ''c'')], TableCell [Text (Str ''private'')],
                    TableCell [Text (Str [])], TableCell [Text (Str [])],
                    TableCell [Text (Str [])], TableCell [Text (Str [])]]],
        Html ''</details>'', Html ''<hr/>'']"
    by (simp add: module_eval descriptor_eval table_eval)
  from private_api_block [OF r] have
    "surviving ?d (Some \<lparr> headingLevel = None, filter_opt = Some identity \<rparr>)
        (Arr [Obj [(''kind'', Str ''field''), (''name'', Str ''c''), (''privacy'', Str ''private'')]])
       = Inr [Obj [(''kind'', Str ''field''), (''name'', Str ''c''), (''privacy'', Str ''private'')]]"
    by (auto simp: r Let_def js_filter_def kindIs_def or_def isPrivate_def isProtected_def)
  with r show ?thesis by simp
qed

section \<open>Table sections\<close>

text \<open>
  C2 as the spec states it, for every option, fails: the heading of a table is built
  by \<open>heading\<close>, which refuses a depth below 1.  With \<open>headingOffset\<close> -3 a row
  survives and the table builder throws, emitting neither a table section nor an
  empty sequence.
\<close>

theorem table_invalid_depth_counterexample:
  "spec_rows (Some \<lparr>headingOffset = Some (- 3), privateOpt = None\<rparr>) None
       (Arr [Obj [(''name'', Str ''A'')]]) = [Obj [(''name'', Str ''A'')]]
   \<and> tableWithTitle (Some \<lparr>headingOffset = Some (- 3), privateOpt = None\<rparr>) ''Mixins''
       [Name ''name''] (Arr [Obj [(''name'', Str ''A'')]]) None = Inl (InvalidDepth 0)"
  by (simp add: table_eval spec_rows_def spec_policy_def visible_def)

text \<open>
  C2, amended: for a declaration list that is an array or absent, the table builder
  returns the empty sequence exactly when no entry survives the active visibility
  filter and the removal of falsy entries; it returns a heading and a table only when
  an entry survives; and when an entry survives, the accessors return on the surviving
  entries and the heading depth is at least 1, it returns the heading at that depth
  followed by a table.  For a declaration without a superclass the Superclass table,
  built from \<open>[undefined]\<close>, is the empty sequence under every option, and no
  Superclass heading is among the nodes of the declaration.
\<close>

theorem table_emitted_iff_rows_survive:
  assumes "optional_seq decls0"
  shows "(spec_rows opts topts decls0 = [] \<longleftrightarrow>
            tableWithTitle opts title names decls0 topts = Inr [])
       \<and> ((\<exists>h t. tableWithTitle opts title names decls0 topts = Inr [h, t])
            \<longrightarrow> spec_rows opts topts decls0 \<noteq> [])
       \<and> (spec_rows opts topts decls0 \<noteq> []
            \<and> (\<forall>n\<in>set names. \<forall>x\<in>set (spec_rows opts topts decls0).
                  \<exists>v. get (getDescriptor n) x = Inr v)
            \<and> 1 \<le> spec_depth opts topts
            \<longrightarrow> (\<exists>align rows. tableWithTitle opts title names decls0 topts =
                   Inr [Heading (spec_depth opts topts) [Text (Str title)], Table align rows]))
       \<and> (\<forall>decl. nullish (optdot decl ''superclass'') \<longrightarrow>
             tableWithTitle opts ''Superclass'' [Name ''name'', Name ''module'', Name ''package'']
               (Arr [optdot decl ''superclass'']) None = Inr []
           \<and> (\<forall>nodes l. declNodes opts decl = Inr nodes \<longrightarrow>
                 Heading l [Text (Str ''Superclass'')] \<notin> set nodes))"
proof -
  let ?rows = "spec_rows opts topts decls0"
  let ?r = "tableWithTitle opts title names decls0 topts"
  note s = surviving_spec_rows [OF assms, of opts topts]
  have sup: "tableWithTitle opts ''Superclass'' [Name ''name'', Name ''module'', Name ''package'']
            (Arr [optdot decl ''superclass'']) None = Inr []"
    if "nullish (optdot decl ''superclass'')" for decl
    by (rule tableWithTitle_empty) (rule surviving_absent [OF that])
  have empty: "?r = Inr []" if "?rows = []"
    using s that tableWithTitle_empty [of opts topts decls0 title names] by simp
  have nonempty: "?r \<noteq> Inr []" if "?rows \<noteq> []"
  proof
    assume "?r = Inr []"
    with tableWithTitle_rows [OF s that, of title names] show False
      by (auto simp: and_then_Inr_iff eq_commute [of "Inr []"])
  qed
  have emitted: "\<exists>align rows. ?r =
        Inr [Heading (spec_depth opts topts) [Text (Str title)], Table align rows]"
    if ne: "?rows \<noteq> []"
      and acc: "\<forall>n\<in>set names. \<forall>x\<in>set ?rows. \<exists>v. get (getDescriptor n) x = Inr v"
      and depth: "1 \<le> spec_depth opts topts"
  proof -
    from columns_total [of names ?rows] acc obtain columns
      where "sequence (map (compose (getColumn ?rows) getDescriptor) names) = Inr columns"
      by blast
    with tableWithTitle_rows [OF s ne, of title names] depth
    show ?thesis by (simp add: heading_node_def spec_depth_eq)
  qed
  have pair: "?rows \<noteq> []" if "?r = Inr [h, t]" for h t
    using that empty by auto
  from empty nonempty emitted pair sup declNodes_no_superclass show ?thesis
    by blast
qed

theorem table_emitted_iff_rows_survive_witness:
  "tableWithTitle (Some \<lparr>headingOffset = None, privateOpt = Some ''hidden''\<rparr>) ''Fields''
       [Name ''name'']
       (Arr [Obj [(''name'', Str ''a''), (''privacy'', Str ''private'')],
             Obj [(''name'', Str ''b'')], Null]) None =
     Inr [Heading 3 [Text (Str ''Fields'')],
          Table [Null] [TableRow [TableCell [Text (Str ''Name'')]],
                        TableRow [TableCell [Text (Str ''b'')]]]]
   \<and> tableWithTitle (Some \<lparr>headingOffset = None, privateOpt = Some ''hidden''\<rparr>) ''Fields''
       [Name ''name'']
       (Arr [Obj [(''name'', Str ''a''), (''privacy'', Str ''private'')]]) None = Inr []
   \<and> declNodes None (Obj [(''kind'', Str ''class''), (''name'', Str ''A'')]) =
        Inr [Heading 2 [Text (Str ''class: ''), InlineCode (Str ''A'')], Html ''<hr/>'']"
proof -
  let ?h = "Some \<lparr>headingOffset = None, privateOpt = Some ''hidden''\<rparr>"
  let ?xs = "Arr [Obj [(''name'', Str ''a''), (''privacy'', Str ''private'')],
             Obj [(''name'', Str ''b'')], Null]"
  let ?ys = "Arr [Obj [(''name'', Str ''a''), (''privacy'', Str ''private'')]]"
  have rx: "spec_rows ?h None ?xs = [Obj [(''name'', Str ''b'')]]"
    by (simp add: spec_rows_def visible_def spec_policy_def)
  have ry: "spec_rows ?h None ?ys = []"
    by (simp add: spec_rows_def visible_def spec_policy_def)
  have d: "declNodes None (Obj [(''kind'', Str ''class''), (''name'', Str ''A'')]) =
        Inr [Heading 2 [Text (Str ''class: ''), InlineCode (Str ''A'')], Html ''<hr/>'']"
    by (simp add: module_eval descriptor_eval table_eval)
  have y: "tableWithTitle ?h ''Fields'' [Name ''name''] ?ys None = Inr []"
    using table_emitted_iff_rows_survive [of ?ys ?h None "''Fields''" "[Name ''name'']"] ry
    by simp
  have x: "tableWithTitle ?h ''Fields'' [Name ''name''] ?xs None =
     Inr [Heading 3 [Text (Str ''Fields'')],
          Table [Null] [TableRow [TableCell [Text (Str ''Name'')]],
                        TableRow [TableCell [Text (Str ''b'')]]]]"
    by (simp add: table_eval)
  from x y d show ?thesis by simp
qed

section \<open>Row counts under the visibility policies\<close>

lemma filter_identity_append [simp]:
  "filter_identity (xs @ ys) = filter_identity xs @ filter_identity ys"
  by (induction xs rule: filter_identity.induct) auto

lemma filter_identity_map_Some [simp]: "filter_identity (map Some ns) = ns"
  by (induction ns) auto

lemma data_rows_decl_heading [simp]:
  "data_rows t (Heading l (a # b # kids) # rest) = data_rows t rest"
  by (cases rest) auto

lemma data_rows_Html [simp]: "data_rows t (Html s # rest) = data_rows t rest"
  by simp

lemma data_rows_table:
  assumes "tableWithTitle opts title names (Arr xs) topts = Inr ns"
  shows "data_rows t (ns @ rest) =
           (if title = t then length (retained opts topts xs) else 0) + data_rows t rest"
proof (cases "ns = []")
  case True
  with table_nonempty_iff [OF assms] show ?thesis by simp
next
  case False
  with assms show ?thesis
    by (rule tableWithTitle_Inr_cases) (auto simp: surviving_Arr)
qed

lemma data_rows_other:
  assumes "tableWithTitle opts title names decls0 topts = Inr ns" "title \<noteq> t"
  shows "data_rows t (ns @ rest) = data_rows t rest"
proof (cases "ns = []")
  case True
  then show ?thesis by simp
next
  case False
  with assms(1) show ?thesis
    by (rule tableWithTitle_Inr_cases) (use assms(2) in auto)
qed

lemma spread_Inr_iff: "spread r = Inr es \<longleftrightarrow> (\<exists>ns. r = Inr ns \<and> es = map Some ns)"
  by (auto simp: spread_def and_then_Inr_iff)

lemma spreads_Inr_Nil: "spreads [] = Inr zs \<longleftrightarrow> zs = []"
  by (auto simp: spreads_Nil)

lemma spreads_Inr_Cons:
  "spreads (r # rs) = Inr zs \<longleftrightarrow> (\<exists>xs ys. r = Inr xs \<and> spreads rs = Inr ys \<and> zs = xs @ ys)"
  by (auto simp: spreads_Cons and_then_Inr_iff)

lemma spreads_ConsE:
  assumes "spreads (r # rs) = Inr zs"
  obtains xs ys where "r = Inr xs" "spreads rs = Inr ys" "zs = xs @ ys"
  using assms by (auto simp: spreads_Inr_Cons)

lemma mainNodes_Inr:
  assumes "mainNodes opts decl flds mths = Inr main"
  shows "\<exists>hd sup mix par fld mth ev att css prt slt.
      (hd = [] \<or> (\<exists>a b kids. hd = [Heading (2 + offset_of opts) (a # b # kids)]))
    \<and> tableWithTitle opts ''Superclass'' [Name ''name'', Name ''module'', Name ''package'']
         (Arr [optdot decl ''superclass'']) None = Inr sup
    \<and> tableWithTitle opts ''Mixins'' [Name ''name'', Name ''module'', Name ''package'']
         (optdot decl ''mixins'') None = Inr mix
    \<and> (par = [] \<or> tableWithTitle opts ''Parameters''
           [Name ''name'', Desc TYPE_COL, Desc DEFAULT, Name ''description'']
           (optdot decl ''parameters'') None = Inr par)
    \<and> tableWithTitle opts ''Fields''
         [Name ''name'', Name ''privacy'', Desc TYPE_COL, Desc DEFAULT,
          Name ''description'', Desc INHERITANCE]
         (Arr flds) None = Inr fld
    \<and> tableWithTitle opts ''Methods''
         [Name ''name'', Name ''privacy'', Name ''description'', Desc PARAMETERS,
          Desc RETURN, Desc INHERITANCE]
         (Arr mths) None = Inr mth
    \<and> tableWithTitle opts ''Events''
         [Name ''name'', Desc TYPE_COL, Name ''description'', Desc INHERITANCE]
         (optdot decl ''events'') None = Inr ev
    \<and> tableWithTitle opts ''Attributes'' [Name ''name'', Desc ATTR_FIELD, Desc INHERITANCE]
         (optdot decl ''attributes'') None = Inr att
    \<and> tableWithTitle opts ''CSS Properties'' [Name ''name'', Desc DEFAULT, Name ''description'']
         (optdot decl ''cssProperties'') None = Inr css
    \<and> tableWithTitle opts ''Parts'' [Name ''name'', Name ''description'']
         (optdot decl ''parts'') None = Inr prt
    \<and> tableWithTitle opts ''Slots'' [Name ''name'', Name ''description'']
         (optdot decl ''slots'') None = Inr slt
    \<and> main = hd @ sup @ mix @ par @ fld @ mth @ ev @ att @ css @ prt @ slt"
proof -
  from assms obtain es where
    es: "spreads [
           (if optdot decl ''kind'' \<noteq> Str ''mixin'' \<and> optdot decl ''kind'' \<noteq> Str ''class'' then Inr [None]
            else and_then (declarationHeading opts decl) (\<lambda>h. Inr [Some h])),
           spread (tableWithTitle opts ''Superclass'' [Name ''name'', Name ''module'', Name ''package'']
             (Arr [optdot decl ''superclass'']) None),
           spread (tableWithTitle opts ''Mixins'' [Name ''name'', Name ''module'', Name ''package'']
             (optdot decl ''mixins'') None),
           spread (if optdot decl ''kind'' = Str ''mixin''
             then tableWithTitle opts ''Parameters''
               [Name ''name'', Desc TYPE_COL, Desc DEFAULT, Name ''description'']
               (optdot decl ''parameters'') None
             else Inr []),
           spread (tableWithTitle opts ''Fields''
             [Name ''name'', Name ''privacy'', Desc TYPE_COL, Desc DEFAULT,
              Name ''description'', Desc INHERITANCE]
             (Arr flds) None),
           spread (tableWithTitle opts ''Methods''
             [Name ''name'', Name ''privacy'', Name ''description'', Desc PARAMETERS,
              Desc RETURN, Desc INHERITANCE]
             (Arr mths) None),
           spread (tableWithTitle opts ''Events''
             [Name ''name'', Desc TYPE_COL, Name ''description'', Desc INHERITANCE]
             (optdot decl ''events'') None),
           spread (tableWithTitle opts ''Attributes'' [Name ''name'', Desc ATTR_FIELD, Desc INHERITANCE]
             (optdot decl ''attributes'') None),
           spread (tableWithTitle opts ''CSS Properties'' [Name ''name'', Desc DEFAULT, Name ''description'']
             (optdot decl ''cssProperties'') None),
           spread (tableWithTitle opts ''Parts'' [Name ''name'', Name ''description'']
             (optdot decl ''parts'') None),
           spread (tableWithTitle opts ''Slots'' [Name ''name'', Name ''description'']
             (optdot decl ''slots'') None)
         ] = Inr es" and main: "main = filter_identity es"
    by (auto simp: mainNodes_def Let_def and_then_Inr_iff)
  from es main have "\<exists>e0 e1 e2 e3 e4 e5 e6 e7 e8 e9 e10.
    ((if optdot decl ''kind'' \<noteq> Str ''mixin'' \<and> optdot decl ''kind'' \<noteq> Str ''class'' then Inr [None]
            else and_then (declarationHeading opts decl) (\<lambda>h. Inr [Some h])) = Inr e0)
    \<and> (spread (tableWithTitle opts ''Superclass'' [Name ''name'', Name ''module'', Name ''package'']
             (Arr [optdot decl ''superclass'']) None) = Inr e1)
    \<and> (spread (tableWithTitle opts ''Mixins'' [Name ''name'', Name ''module'', Name ''package'']
             (optdot decl ''mixins'') None) = Inr e2)
    \<and> (spread (if optdot decl ''kind'' = Str ''mixin''
             then tableWithTitle opts ''Parameters''
               [Name ''name'', Desc TYPE_COL, Desc DEFAULT, Name ''description'']
               (optdot decl ''parameters'') None
             else Inr []) = Inr e3)
    \<and> (spread (tableWithTitle opts ''Fields''
             [Name ''name'', Name ''privacy'', Desc TYPE_COL, Desc DEFAULT,
              Name ''description'', Desc INHERITANCE]
             (Arr flds) None) = Inr e4)
    \<and> (spread (tableWithTitle opts ''Methods''
             [Name ''name'', Name ''privacy'', Name ''description'', Desc PARAMETERS,
              Desc RETURN, Desc INHERITANCE]
             (Arr mths) None) = Inr e5)
    \<and> (spread (tableWithTitle opts ''Events''
             [Name ''name'', Desc TYPE_COL, Name ''description'', Desc INHERITANCE]
             (optdot decl ''events'') None) = Inr e6)
    \<and> (spread (tableWithTitle opts ''Attributes'' [Name ''name'', Desc ATTR_FIELD, Desc INHERITANCE]
             (optdot decl ''attributes'') None) = Inr e7)
    \<and> (spread (tableWithTitle opts ''CSS Properties'' [Name ''name'', Desc DEFAULT, Name ''description'']
             (optdot decl ''cssProperties'') None) = Inr e8)
    \<and> (spread (tableWithTitle opts ''Parts'' [Name ''name'', Name ''description'']
             (optdot decl ''parts'') None) = Inr e9)
    \<and> (spread (tableWithTitle opts ''Slots'' [Name ''name'', Name ''description'']
             (optdot decl ''slots'') None) = Inr e10)
    \<and> main = filter_identity (e0 @ e1 @ e2 @ e3 @ e4 @ e5 @ e6 @ e7 @ e8 @ e9 @ e10)"
    by (elim spreads_ConsE) (auto simp: spreads_Inr_Nil)
  then obtain e0 e1 e2 e3 e4 e5 e6 e7 e8 e9 e10 where
    e0: "(if optdot decl ''kind'' \<noteq> Str ''mixin'' \<and> optdot decl ''kind'' \<noteq> Str ''class'' then Inr [None]
            else and_then (declarationHeading opts decl) (\<lambda>h. Inr [Some h])) = Inr e0"
    and e1: "spread (tableWithTitle opts ''Superclass'' [Name ''name'', Name ''module'', Name ''package'']
             (Arr [optdot decl ''superclass'']) None) = Inr e1"
    and e2: "spread (tableWithTitle opts ''Mixins'' [Name ''name'', Name ''module'', Name ''package'']
             (optdot decl ''mixins'') None) = Inr e2"
    and e3: "spread (if optdot decl ''kind'' = Str ''mixin''
             then tableWithTitle opts ''Parameters''
               [Name ''name'', Desc TYPE_COL, Desc DEFAULT, Name ''description'']
               (optdot decl ''parameters'') None
             else Inr []) = Inr e3"
    and e4: "spread (tableWithTitle opts ''Fields''
             [Name ''name'', Name ''privacy'', Desc TYPE_COL, Desc DEFAULT,
              Name ''description'', Desc INHERITANCE]
             (Arr flds) None) = Inr e4"
    and e5: "spread (tableWithTitle opts ''Methods''
             [Name ''name'', Name ''privacy'', Name ''description'', Desc PARAMETERS,
              Desc RETURN, Desc INHERITANCE]
             (Arr mths) None) = Inr e5"
    and e6: "spread (tableWithTitle opts ''Events''
             [Name ''name'', Desc TYPE_COL, Name ''description'', Desc INHERITANCE]
             (optdot decl ''events'') None) = Inr e6"
    and e7: "spread (tableWithTitle opts ''Attributes'' [Name ''name'', Desc ATTR_FIELD, Desc INHERITANCE]
             (optdot decl ''attributes'') None) = Inr e7"
    and e8: "spread (tableWithTitle opts ''CSS Properties'' [Name ''name'', Desc DEFAULT, Name ''description'']
             (optdot decl ''cssProperties'') None) = Inr e8"
    and e9: "spread (tableWithTitle opts ''Parts'' [Name ''name'', Name ''description'']
             (optdot decl ''parts'') None) = Inr e9"
    and e10: "spread (tableWithTitle opts ''Slots'' [Name ''name'', Name ''description'']
             (optdot decl ''slots'') None) = Inr e10"
    and main: "main = filter_identity (e0 @ e1 @ e2 @ e3 @ e4 @ e5 @ e6 @ e7 @ e8 @ e9 @ e10)"
    by blast
  have hd: "filter_identity e0 = [] \<or>
      (\<exists>a b kids. filter_identity e0 = [Heading (2 + offset_of opts) (a # b # kids)])"
    using e0 declarationHeading_Inr [of opts decl]
    by (auto simp: and_then_Inr_iff split: if_splits)
  from e3 have par: "filter_identity e3 = [] \<or> tableWithTitle opts ''Parameters''
           [Name ''name'', Desc TYPE_COL, Desc DEFAULT, Name ''description'']
           (optdot decl ''parameters'') None = Inr (filter_identity e3)"
    by (auto simp: spread_Inr_iff split: if_splits)
  from e1 obtain sup where sup: "tableWithTitle opts ''Superclass''
         [Name ''name'', Name ''module'', Name ''package'']
         (Arr [optdot decl ''superclass'']) None = Inr sup" and s1: "e1 = map Some sup"
    by (auto simp: spread_Inr_iff)
  from e2 obtain mix where mix: "tableWithTitle opts ''Mixins''
         [Name ''name'', Name ''module'', Name ''package'']
         (optdot decl ''mixins'') None = Inr mix" and s2: "e2 = map Some mix"
    by (auto simp: spread_Inr_iff)
  from e4 obtain fld where fld: "tableWithTitle opts ''Fields''
         [Name ''name'', Name ''privacy'', Desc TYPE_COL, Desc DEFAULT,
          Name ''description'', Desc INHERITANCE]
         (Arr flds) None = Inr fld" and s4: "e4 = map Some fld"
    by (auto simp: spread_Inr_iff)
  from e5 obtain mth where mth: "tableWithTitle opts ''Methods''
         [Name ''name'', Name ''privacy'', Name ''description'', Desc PARAMETERS,
          Desc RETURN, Desc INHERITANCE]
         (Arr mths) None = Inr mth" and s5: "e5 = map Some mth"
    by (auto simp: spread_Inr_iff)
  from e6 obtain ev where ev: "tableWithTitle opts ''Events''
         [Name ''name'', Desc TYPE_COL, Name ''description'', Desc INHERITANCE]
         (optdot decl ''events'') None = Inr ev" and s6: "e6 = map Some ev"
    by (auto simp: spread_Inr_iff)
  from e7 obtain att where att: "tableWithTitle opts ''Attributes''
         [Name ''name'', Desc ATTR_FIELD, Desc INHERITANCE]
         (optdot decl ''attributes'') None = Inr att" and s7: "e7 = map Some att"
    by (auto simp: spread_Inr_iff)
  from e8 obtain css where css: "tableWithTitle opts ''CSS Properties''
         [Name ''name'', Desc DEFAULT, Name ''description'']
         (optdot decl ''cssProperties'') None = Inr css" and s8: "e8 = map Some css"
    by (auto simp: spread_Inr_iff)
  from e9 obtain prt where prt: "tableWithTitle opts ''Parts'' [Name ''name'', Name ''description'']
         (optdot decl ''parts'') None = Inr prt" and s9: "e9 = map Some prt"
    by (auto simp: spread_Inr_iff)
  from e10 obtain slt where slt: "tableWithTitle opts ''Slots'' [Name ''name'', Name ''description'']
         (optdot decl ''slots'') None = Inr slt" and s10: "e10 = map Some slt"
    by (auto simp: spread_Inr_iff)
  from main s1 s2 s4 s5 s6 s7 s8 s9 s10
  have "main = filter_identity e0 @ sup @ mix @ filter_identity e3 @ fld @ mth @ ev @ att
                 @ css @ prt @ slt"
    by simp
  with hd par sup mix fld mth ev att css prt slt show ?thesis by blast
qed

lemma data_rows_main:
  assumes "mainNodes opts decl flds mths = Inr main"
  shows "data_rows ''Fields'' (main @ rest) = length (retained opts None flds) + data_rows ''Fields'' rest"
    and "data_rows ''Methods'' (main @ rest) = length (retained opts None mths) + data_rows ''Methods'' rest"
proof -
  from mainNodes_Inr [OF assms] obtain hd sup mix par fld mth ev att css prt slt where
    hd: "hd = [] \<or> (\<exists>a b kids. hd = [Heading (2 + offset_of opts) (a # b # kids)])"
    and sup: "tableWithTitle opts ''Superclass'' [Name ''name'', Name ''module'', Name ''package'']
         (Arr [optdot decl ''superclass'']) None = Inr sup"
    and mix: "tableWithTitle opts ''Mixins'' [Name ''name'', Name ''module'', Name ''package'']
         (optdot decl ''mixins'') None = Inr mix"
    and par: "par = [] \<or> tableWithTitle opts ''Parameters''
           [Name ''name'', Desc TYPE_COL, Desc DEFAULT, Name ''description'']
           (optdot decl ''parameters'') None = Inr par"
    and fld: "tableWithTitle opts ''Fields''
         [Name ''name'', Name ''privacy'', Desc TYPE_COL, Desc DEFAULT,
          Name ''description'', Desc INHERITANCE]
         (Arr flds) None = Inr fld"
    and mth: "tableWithTitle opts ''Methods''
         [Name ''name'', Name ''privacy'', Name ''description'', Desc PARAMETERS,
          Desc RETURN, Desc INHERITANCE]
         (Arr mths) None = Inr mth"
    and ev: "tableWithTitle opts ''Events''
         [Name ''name'', Desc TYPE_COL, Name ''description'', Desc INHERITANCE]
         (optdot decl ''events'') None = Inr ev"
    and att: "tableWithTitle opts ''Attributes'' [Name ''name'', Desc ATTR_FIELD, Desc INHERITANCE]
         (optdot decl ''attributes'') None = Inr att"
    and css: "tableWithTitle opts ''CSS Properties'' [Name ''name'', Desc DEFAULT, Name ''description'']
         (optdot decl ''cssProperties'') None = Inr css"
    and prt: "tableWithTitle opts ''Parts'' [Name ''name'', Name ''description'']
         (optdot decl ''parts'') None = Inr prt"
    and slt: "tableWithTitle opts ''Slots'' [Name ''name'', Name ''description'']
         (optdot decl ''slots'') None = Inr slt"
    and main: "main = hd @ sup @ mix @ par @ fld @ mth @ ev @ att @ css @ prt @ slt"
    by blast
  have h: "data_rows t (hd @ r) = data_rows t r" for t r
    using hd by auto
  have p: "data_rows t (par @ r) = data_rows t r" if "t \<noteq> ''Parameters''" for t r
    using par data_rows_other [of opts "''Parameters''" _ _ None par t r] that by auto
  show "data_rows ''Fields'' (main @ rest) = length (retained opts None flds) + data_rows ''Fields'' rest"
    by (simp add: main h p data_rows_other [OF sup] data_rows_other [OF mix]
        data_rows_table [OF fld] data_rows_other [OF mth] data_rows_other [OF ev]
        data_rows_other [OF att] data_rows_other [OF css] data_rows_other [OF prt]
        data_rows_other [OF slt])
  show "data_rows ''Methods'' (main @ rest) = length (retained opts None mths) + data_rows ''Methods'' rest"
    by (simp add: main h p data_rows_other [OF sup] data_rows_other [OF mix]
        data_rows_other [OF fld] data_rows_table [OF mth] data_rows_other [OF ev]
        data_rows_other [OF att] data_rows_other [OF css] data_rows_other [OF prt]
        data_rows_other [OF slt])
qed

lemma data_rows_pushed:
  assumes "privateApi opts flds mths = Inr pushed"
  shows "data_rows ''Fields'' (pushed @ rest) =
           (if private_of opts = Some ''details''
            then length (js_filter (or isPrivate isProtected) flds) else 0)
           + data_rows ''Fields'' rest"
    and "data_rows ''Methods'' (pushed @ rest) =
           (if private_of opts = Some ''details''
            then length (js_filter (or isPrivate isProtected) mths) else 0)
           + data_rows ''Methods'' rest"
proof -
  let ?cond = "private_of opts = Some ''details''
            \<and> (js_filter (or isPrivate isProtected) flds \<noteq> []
               \<or> js_filter (or isPrivate isProtected) mths \<noteq> [])"
  have "data_rows ''Fields'' (pushed @ rest) =
           (if private_of opts = Some ''details''
            then length (js_filter (or isPrivate isProtected) flds) else 0)
           + data_rows ''Fields'' rest
      \<and> data_rows ''Methods'' (pushed @ rest) =
           (if private_of opts = Some ''details''
            then length (js_filter (or isPrivate isProtected) mths) else 0)
           + data_rows ''Methods'' rest"
  proof (cases ?cond)
    case False
    with privateApi_Inr [OF assms] have "pushed = []" by auto
    with False show ?thesis by auto
  next
    case True
    with privateApi_Inr [OF assms] obtain F M where
      p: "pushed = Html ''<details><summary>Private API</summary>'' # F @ M @ [Html ''</details>'']"
      and F: "tableWithTitle opts ''Fields''
                  [Name ''name'', Name ''privacy'', Desc TYPE_COL, Desc DEFAULT,
                   Name ''description'', Desc INHERITANCE]
                  (Arr (js_filter (or isPrivate isProtected) flds))
                  (Some \<lparr> headingLevel = None, filter_opt = Some identity \<rparr>) = Inr F"
      and M: "tableWithTitle opts ''Methods''
                  [Name ''name'', Name ''privacy'', Name ''description'', Desc PARAMETERS,
                   Desc RETURN, Desc INHERITANCE]
                  (Arr (js_filter (or isPrivate isProtected) mths))
                  (Some \<lparr> headingLevel = None, filter_opt = Some identity \<rparr>) = Inr M"
      by auto
    from True show ?thesis
      by (simp add: p data_rows_table [OF F] data_rows_other [OF F] data_rows_table [OF M]
          data_rows_other [OF M] retained_private_subset)
  qed
  then show "data_rows ''Fields'' (pushed @ rest) =
           (if private_of opts = Some ''details''
            then length (js_filter (or isPrivate isProtected) flds) else 0)
           + data_rows ''Fields'' rest"
    and "data_rows ''Methods'' (pushed @ rest) =
           (if private_of opts = Some ''details''
            then length (js_filter (or isPrivate isProtected) mths) else 0)
           + data_rows ''Methods'' rest"
    by simp_all
qed

lemma data_rows_decl:
  assumes "declNodes opts decl = Inr nodes"
    and "array_of (case optdot decl ''members'' of Undefined \<Rightarrow> Arr [] | m \<Rightarrow> m) = Inr ms"
  shows "data_rows ''Fields'' nodes =
           length (retained opts None (js_filter (kindIs ''field'') ms))
           + (if private_of opts = Some ''details''
              then length (js_filter (or isPrivate isProtected) (js_filter (kindIs ''field'') ms))
              else 0)"
    and "data_rows ''Methods'' nodes =
           length (retained opts None (js_filter (kindIs ''method'') ms))
           + (if private_of opts = Some ''details''
              then length (js_filter (or isPrivate isProtected) (js_filter (kindIs ''method'') ms))
              else 0)"
proof -
  from assms(1) obtain ms' main pushed where
    ms': "array_of (case optdot decl ''members'' of Undefined \<Rightarrow> Arr [] | m \<Rightarrow> m) = Inr ms'"
    and main: "mainNodes opts decl (js_filter (kindIs ''field'') ms') (js_filter (kindIs ''method'') ms') = Inr main"
    and pushed: "privateApi opts (js_filter (kindIs ''field'') ms') (js_filter (kindIs ''method'') ms') = Inr pushed"
    and nodes: "nodes = (if main @ pushed \<noteq> [] then main @ pushed @ [line] else [])"
    by (rule declNodes_Inr)
  from ms' assms(2) have eq: "ms' = ms" by simp
  from nodes obtain tl where tl: "nodes = main @ pushed @ tl" "tl = [line] \<or> tl = []"
    by (cases "main @ pushed = []") auto
  from tl(2) have z: "data_rows t tl = 0" for t
    by (auto simp: line_def)
  show "data_rows ''Fields'' nodes =
           length (retained opts None (js_filter (kindIs ''field'') ms))
           + (if private_of opts = Some ''details''
              then length (js_filter (or isPrivate isProtected) (js_filter (kindIs ''field'') ms))
              else 0)"
    unfolding tl(1) data_rows_main(1) [OF main] data_rows_pushed(1) [OF pushed] z eq
    by simp
  show "data_rows ''Methods'' nodes =
           length (retained opts None (js_filter (kindIs ''method'') ms))
           + (if private_of opts = Some ''details''
              then length (js_filter (or isPrivate isProtected) (js_filter (kindIs ''method'') ms))
              else 0)"
    unfolding tl(1) data_rows_main(2) [OF main] data_rows_pushed(2) [OF pushed] z eq
    by simp
qed

lemma details_partition:
  "length (retained d None xs) + length (js_filter (or isPrivate isProtected) xs)
     = length (filter truthy xs)"
  if "private_of d = Some ''details''"
proof -
  have a: "retained d None xs =
      filter (\<lambda>x. \<not> truthy (or isPrivate isProtected x)) (filter truthy xs)"
    using that
    by (auto simp: retained_filter by_filter_def filter_of_def not_def intro: filter_cong)
  have b: "js_filter (or isPrivate isProtected) xs =
      filter (\<lambda>x. truthy (or isPrivate isProtected x)) (filter truthy xs)"
    by (auto simp: js_filter_def dest: tagged_truthy intro: filter_cong)
  show ?thesis
    unfolding a b
    using sum_length_filter_compl [of "\<lambda>x. truthy (or isPrivate isProtected x)" "filter truthy xs"]
    by simp
qed

lemma hidden_rows: "private_of h = Some ''hidden'' \<Longrightarrow>
    retained h None xs = filter (\<lambda>x. \<not> truthy (isPrivate x)) (filter truthy xs)"
  by (auto simp: retained_filter by_filter_def filter_of_def not_def intro: filter_cong)

lemma default_rows: "private_of n = None \<Longrightarrow> retained n None xs = filter truthy xs"
  by (auto simp: retained_filter by_filter_def filter_of_def identity_def intro: filter_cong)

text \<open>
  C1: privacy filtering is monotonic.  The rows of a privacy-scoped kind (fields,
  methods) that a declaration's section retains are counted over the tables of that
  kind in the section, the main table and, under "details", the table of the Private
  API block, where the rows dropped from the main table reappear.  For every
  declaration the count under "hidden" is at most the count under "details", which is
  at most the count under the default policy; and for every list of rows, the rows
  kept under "hidden" are among the rows of the two tables under "details", which are
  among the rows kept by default.
\<close>

theorem privacy_filter_monotonic:
  assumes "spec_policy h = Some ''hidden''" "spec_policy d = Some ''details''"
    and "spec_policy n = None"
    and "declNodes h decl = Inr nh" "declNodes d decl = Inr nd" "declNodes n decl = Inr nn"
  shows "data_rows ''Fields'' nh \<le> data_rows ''Fields'' nd
       \<and> data_rows ''Fields'' nd \<le> data_rows ''Fields'' nn
       \<and> data_rows ''Methods'' nh \<le> data_rows ''Methods'' nd
       \<and> data_rows ''Methods'' nd \<le> data_rows ''Methods'' nn
       \<and> (\<forall>xs. set (retained h None xs)
                  \<subseteq> set (retained d None xs)
                    \<union> set (retained d (Some \<lparr> headingLevel = None, filter_opt = Some identity \<rparr>)
                             (js_filter (or isPrivate isProtected) xs))
              \<and> set (retained d None xs)
                    \<union> set (retained d (Some \<lparr> headingLevel = None, filter_opt = Some identity \<rparr>)
                             (js_filter (or isPrivate isProtected) xs))
                  \<subseteq> set (retained n None xs))"
proof -
  note p = assms(1-3) [unfolded spec_policy_eq]
  from assms(4) obtain ms where
    ms: "array_of (case optdot decl ''members'' of Undefined \<Rightarrow> Arr [] | m \<Rightarrow> m) = Inr ms"
    by (rule declNodes_Inr)
  have le: "length (retained h None xs) \<le> length (filter truthy xs)" for xs
    unfolding hidden_rows [OF p(1)] by (rule length_filter_le)
  have counts: "data_rows ''Fields'' nh \<le> data_rows ''Fields'' nd
       \<and> data_rows ''Fields'' nd \<le> data_rows ''Fields'' nn
       \<and> data_rows ''Methods'' nh \<le> data_rows ''Methods'' nd
       \<and> data_rows ''Methods'' nd \<le> data_rows ''Methods'' nn"
    unfolding data_rows_decl [OF assms(4) ms] data_rows_decl [OF assms(5) ms]
      data_rows_decl [OF assms(6) ms]
    using p le
    by (simp add: details_partition default_rows)
  have sets: "set (retained h None xs)
                  \<subseteq> set (retained d None xs)
                    \<union> set (retained d (Some \<lparr> headingLevel = None, filter_opt = Some identity \<rparr>)
                             (js_filter (or isPrivate isProtected) xs))
              \<and> set (retained d None xs)
                    \<union> set (retained d (Some \<lparr> headingLevel = None, filter_opt = Some identity \<rparr>)
                             (js_filter (or isPrivate isProtected) xs))
                  \<subseteq> set (retained n None xs)" for xs
    unfolding retained_private_subset hidden_rows [OF p(1)] default_rows [OF p(3)]
    using p(2)
    by (auto simp: retained_filter by_filter_def filter_of_def not_def js_filter_def
        dest: tagged_truthy)
  from counts sets show ?thesis by blast
qed

theorem privacy_filter_monotonic_witness:
  "\<exists>nh nd nn.
      declNodes (Some \<lparr>headingOffset = None, privateOpt = Some ''hidden''\<rparr>)
        (Obj [(''kind'', Str ''class''), (''name'', Str ''A''), (''members'', Arr [
           Obj [(''kind'', Str ''field''), (''name'', Str ''a'')],
           Obj [(''kind'', Str ''field''), (''name'', Str ''b''), (''privacy'', Str ''protected'')],
           Obj [(''kind'', Str ''field''), (''name'', Str ''c''), (''privacy'', Str ''private'')]])])
        = Inr nh
    \<and> declNodes (Some \<lparr>headingOffset = None, privateOpt = Some ''details''\<rparr>)
        (Obj [(''kind'', Str ''class''), (''name'', Str ''A''), (''members'', Arr [
           Obj [(''kind'', Str ''field''), (''name'', Str ''a'')],
           Obj [(''kind'', Str ''field''), (''name'', Str ''b''), (''privacy'', Str ''protected'')],
           Obj [(''kind'', Str ''field''), (''name'', Str ''c''), (''privacy'', Str ''private'')]])])
        = Inr nd
    \<and> declNodes None
        (Obj [(''kind'', Str ''class''), (''name'', Str ''A''), (''members'', Arr [
           Obj [(''kind'', Str ''field''), (''name'', Str ''a'')],
           Obj [(''kind'', Str ''field''), (''name'', Str ''b''), (''privacy'', Str ''protected'')],
           Obj [(''kind'', Str ''field''), (''name'', Str ''c''), (''privacy'', Str ''private'')]])])
        = Inr nn
    \<and> data_rows ''Fields'' nh = 2 \<and> data_rows ''Fields'' nd = 3 \<and> data_rows ''Fields'' nn = 3
    \<and> data_rows ''Fields'' nh \<le> data_rows ''Fields'' nd
    \<and> data_rows ''Fields'' nd \<le> data_rows ''Fields'' nn"
proof -
  let ?h = "Some \<lparr>headingOffset = None, privateOpt = Some ''hidden''\<rparr>"
  let ?d = "Some \<lparr>headingOffset = None, privateOpt = Some ''details''\<rparr>"
  let ?c = "Obj [(''kind'', Str ''class''), (''name'', Str ''A''), (''members'', Arr [
           Obj [(''kind'', Str ''field''), (''name'', Str ''a'')],
           Obj [(''kind'', Str ''field''), (''name'', Str ''b''), (''privacy'', Str ''protected'')],
           Obj [(''kind'', Str ''field''), (''name'', Str ''c''), (''privacy'', Str ''private'')]])]"
  obtain nh where nh: "declNodes ?h ?c = Inr nh" "data_rows ''Fields'' nh = 2"
    by (simp add: module_eval descriptor_eval table_eval)
  obtain nd where nd: "declNodes ?d ?c = Inr nd" "data_rows ''Fields'' nd = 3"
    by (simp add: module_eval descriptor_eval table_eval)
  obtain nn where nn: "declNodes None ?c = Inr nn" "data_rows ''Fields'' nn = 3"
    by (simp add: module_eval descriptor_eval table_eval)
  have p: "spec_policy ?h = Some ''hidden''" "spec_policy ?d = Some ''details''"
    "spec_policy None = None"
    by (simp_all add: spec_policy_def)
  from privacy_filter_monotonic [OF p nh(1) nd(1) nn(1)] nh nd nn show ?thesis
    by blast
qed

section \<open>Module documents and the root\<close>

lemma makeModuleDoc_Some:
  assumes "makeModuleDoc m opts = Inr (Some doc)"
  shows "\<exists>ds. array_of (coalesce (optdot m ''declarations'') (Arr [])) = Inr ds
    \<and> spreads [
        and_then (dot m ''path'') (\<lambda>path.
          and_then (heading_node (1 + offset_of opts) [InlineCode path, Text (Str '':'')])
            (\<lambda>h. Inr [h])),
        spreads (map (declNodes opts) ds),
        tableWithTitle opts ''Variables'' [Name ''name'', Name ''description'', Desc TYPE_COL]
          (Arr (js_filter (kindIs ''variable'') ds))
          (Some \<lparr> headingLevel = Some 2, filter_opt = None \<rparr>),
        Inr (if js_filter (kindIs ''variable'') ds \<noteq> [] then [line] else []),
        tableWithTitle opts ''Functions''
          [Name ''name'', Name ''description'', Desc PARAMETERS, Desc RETURN]
          (Arr (js_filter (kindIs ''function'') ds))
          (Some \<lparr> headingLevel = Some 2, filter_opt = None \<rparr>),
        Inr (if js_filter (kindIs ''function'') ds \<noteq> [] then [line] else []),
        and_then (dot m ''exports'') (\<lambda>es.
          tableWithTitle opts ''Exports''
            [Name ''kind'', Name ''name'', Desc DECLARATION, Desc MODULE, Desc PACKAGE]
            es (Some \<lparr> headingLevel = Some 2, filter_opt = None \<rparr>))] = Inr doc"
proof (cases "\<not> truthy (js_length (coalesce (optdot m ''declarations'') (Arr [])))
      \<and> \<not> truthy (js_length (coalesce (optdot m ''exports'') (Arr [])))")
  case True
  with assms show ?thesis by (simp add: makeModuleDoc_def)
next
  case False
  with assms show ?thesis
    by (simp add: makeModuleDoc_def Let_def and_then_Inr_iff del: truthy.simps)
qed

text \<open>
  C7: a module with no declarations and no exports has no document (\<open>makeModuleDoc\<close>
  returns \<open>undefined\<close>), and the root holds the documents of the modules in manifest
  order, a module without a document contributing nothing.
\<close>

theorem empty_module_contributes_nothing:
  "(coalesce (optdot m ''declarations'') (Arr []) = Arr []
      \<and> coalesce (optdot m ''exports'') (Arr []) = Arr []
      \<longrightarrow> makeModuleDoc m opts = Inr None)
   \<and> (\<not> nullish manifest \<and> optdot manifest ''modules'' = Arr ms
      \<and> sequence (map (\<lambda>x. makeModuleDoc x opts) ms) = Inr docs
      \<longrightarrow> customElementsManifestToMarkdown serialize manifest opts =
          Inr (serialize (Root (concat (map (\<lambda>d. case d of None \<Rightarrow> [] | Some ns \<Rightarrow> ns) docs)))))"
  by (simp add: makeModuleDoc_def customElementsManifestToMarkdown_def dot_def
      filter_identity_flat_entries)

theorem empty_module_contributes_nothing_witness:
  "makeModuleDoc (Obj [(''path'', Str ''empty.js''), (''declarations'', Arr [])]) None = Inr None
   \<and> customElementsManifestToMarkdown id
       (Obj [(''modules'', Arr [
          Obj [(''path'', Str ''empty.js''), (''declarations'', Arr [])],
          Obj [(''path'', Str ''a.js''), (''exports'', Arr [Obj [(''kind'', Str ''js''), (''name'', Str ''A'')]])]])])
       None =
     Inr (Root [Heading 1 [InlineCode (Str ''a.js''), Text (Str '':'')],
                Heading 2 [Text (Str ''Exports'')],
                Table [Null, Null, Null, Null, Null]
                  [TableRow [TableCell [Text (Str ''Kind'')], TableCell [Text (Str ''Name'')],
                             TableCell [Text (Str ''Declaration'')],
                             TableCell [Text (Str ''Module'')],
                             TableCell [Text (Str ''Package'')]],
                   TableRow [TableCell [Text (Str ''js'')], TableCell [Text (Str ''A'')],
                             TableCell [Text (Str [])], TableCell [Text (Str [])],
                             TableCell [Text (Str [])]]]])"
proof -
  let ?e = "Obj [(''path'', Str ''empty.js''), (''declarations'', Arr [])]"
  let ?a = "Obj [(''path'', Str ''a.js''), (''exports'', Arr [Obj [(''kind'', Str ''js''), (''name'', Str ''A'')]])]"
  let ?doc = "[Heading 1 [InlineCode (Str ''a.js''), Text (Str '':'')],
                Heading 2 [Text (Str ''Exports'')],
                Table [Null, Null, Null, Null, Null]
                  [TableRow [TableCell [Text (Str ''Kind'')], TableCell [Text (Str ''Name'')],
                             TableCell [Text (Str ''Declaration'')],
                             TableCell [Text (Str ''Module'')],
                             TableCell [Text (Str ''Package'')]],
                   TableRow [TableCell [Text (Str ''js'')], TableCell [Text (Str ''A'')],
                             TableCell [Text (Str [])], TableCell [Text (Str [])],
                             TableCell [Text (Str [])]]]]"
  have a: "makeModuleDoc ?a None = Inr (Some ?doc)"
    by (simp add: module_eval descriptor_eval table_eval)
  have e: "coalesce (optdot ?e ''declarations'') (Arr []) = Arr []
      \<and> coalesce (optdot ?e ''exports'') (Arr []) = Arr []"
    by (simp add: coalesce_def)
  note t = empty_module_contributes_nothing [of ?e None "Obj [(''modules'', Arr [?e, ?a])]" "[?e, ?a]"
      "[None, Some ?doc]" id]
  from t e have e': "makeModuleDoc ?e None = Inr None" by blast
  with a have "sequence (map (\<lambda>x. makeModuleDoc x None) [?e, ?a]) = Inr [None, Some ?doc]"
    by simp
  with t e' show ?thesis by simp
qed

text \<open>
  C8 as the spec states it fails: the separator depends on the declarations of the kind,
  the table on those that survive the row filter.  A module whose only variable is
  tagged private has, under "hidden", a separator and no Variables table.
\<close>

theorem stray_separator_counterexample:
  "tableWithTitle (Some \<lparr>headingOffset = None, privateOpt = Some ''hidden''\<rparr>) ''Variables''
       [Name ''name'', Name ''description'', Desc TYPE_COL]
       (Arr [Obj [(''kind'', Str ''variable''), (''name'', Str ''v''), (''privacy'', Str ''private'')]])
       (Some \<lparr> headingLevel = Some 2, filter_opt = None \<rparr>) = Inr []
   \<and> makeModuleDoc
       (Obj [(''path'', Str ''a.js''),
             (''declarations'', Arr [Obj [(''kind'', Str ''variable''), (''name'', Str ''v''),
                                         (''privacy'', Str ''private'')]])])
       (Some \<lparr>headingOffset = None, privateOpt = Some ''hidden''\<rparr>) =
     Inr (Some [Heading 1 [InlineCode (Str ''a.js''), Text (Str '':'')], Html ''<hr/>''])"
  by (simp add: module_eval descriptor_eval table_eval)

text \<open>
  C8, amended: a module document is the module heading, the nodes of the declarations
  in order, the Variables table, a separator exactly when the module has a variable,
  the Functions table, a separator exactly when the module has a function, and the
  Exports table.  An emitted Variables or Functions table is therefore always followed
  by its separator, and when no declaration is tagged private or protected (the
  schema's variables and functions carry no privacy) the separator is there exactly
  when the table is.
\<close>

theorem module_table_separators:
  assumes "makeModuleDoc m opts = Inr (Some doc)"
  shows "\<exists>ds secs V F E.
      array_of (coalesce (optdot m ''declarations'') (Arr [])) = Inr ds
    \<and> spreads (map (declNodes opts) ds) = Inr secs
    \<and> tableWithTitle opts ''Variables'' [Name ''name'', Name ''description'', Desc TYPE_COL]
        (Arr (js_filter (kindIs ''variable'') ds))
        (Some \<lparr> headingLevel = Some 2, filter_opt = None \<rparr>) = Inr V
    \<and> tableWithTitle opts ''Functions''
        [Name ''name'', Name ''description'', Desc PARAMETERS, Desc RETURN]
        (Arr (js_filter (kindIs ''function'') ds))
        (Some \<lparr> headingLevel = Some 2, filter_opt = None \<rparr>) = Inr F
    \<and> tableWithTitle opts ''Exports''
        [Name ''kind'', Name ''name'', Desc DECLARATION, Desc MODULE, Desc PACKAGE]
        (optdot m ''exports'')
        (Some \<lparr> headingLevel = Some 2, filter_opt = None \<rparr>) = Inr E
    \<and> doc = Heading (1 + spec_offset opts) [InlineCode (optdot m ''path''), Text (Str '':'')] # secs
          @ V @ (if js_filter (kindIs ''variable'') ds \<noteq> [] then [line] else [])
          @ F @ (if js_filter (kindIs ''function'') ds \<noteq> [] then [line] else [])
          @ E
    \<and> (V \<noteq> [] \<longrightarrow> js_filter (kindIs ''variable'') ds \<noteq> [])
    \<and> (F \<noteq> [] \<longrightarrow> js_filter (kindIs ''function'') ds \<noteq> [])
    \<and> ((\<forall>x\<in>set ds. \<not> truthy (isPrivate x) \<and> \<not> truthy (isProtected x)) \<longrightarrow>
          (V \<noteq> [] \<longleftrightarrow> js_filter (kindIs ''variable'') ds \<noteq> [])
        \<and> (F \<noteq> [] \<longleftrightarrow> js_filter (kindIs ''function'') ds \<noteq> []))"
proof -
  let ?t = "Some \<lparr> headingLevel = Some 2, filter_opt = None \<rparr>"
  from makeModuleDoc_Some [OF assms] obtain ds where
    ds: "array_of (coalesce (optdot m ''declarations'') (Arr [])) = Inr ds"
    and nodes: "spreads [
        and_then (dot m ''path'') (\<lambda>path.
          and_then (heading_node (1 + offset_of opts) [InlineCode path, Text (Str '':'')])
            (\<lambda>h. Inr [h])),
        spreads (map (declNodes opts) ds),
        tableWithTitle opts ''Variables'' [Name ''name'', Name ''description'', Desc TYPE_COL]
          (Arr (js_filter (kindIs ''variable'') ds)) ?t,
        Inr (if js_filter (kindIs ''variable'') ds \<noteq> [] then [line] else []),
        tableWithTitle opts ''Functions''
          [Name ''name'', Name ''description'', Desc PARAMETERS, Desc RETURN]
          (Arr (js_filter (kindIs ''function'') ds)) ?t,
        Inr (if js_filter (kindIs ''function'') ds \<noteq> [] then [line] else []),
        and_then (dot m ''exports'') (\<lambda>es.
          tableWithTitle opts ''Exports''
            [Name ''kind'', Name ''name'', Desc DECLARATION, Desc MODULE, Desc PACKAGE]
            es ?t)] = Inr doc"
    by blast
  from nodes obtain secs V F E where
    secs: "spreads (map (declNodes opts) ds) = Inr secs"
    and V: "tableWithTitle opts ''Variables'' [Name ''name'', Name ''description'', Desc TYPE_COL]
        (Arr (js_filter (kindIs ''variable'') ds)) ?t = Inr V"
    and F: "tableWithTitle opts ''Functions''
        [Name ''name'', Name ''description'', Desc PARAMETERS, Desc RETURN]
        (Arr (js_filter (kindIs ''function'') ds)) ?t = Inr F"
    and E: "tableWithTitle opts ''Exports''
        [Name ''kind'', Name ''name'', Desc DECLARATION, Desc MODULE, Desc PACKAGE]
        (optdot m ''exports'') ?t = Inr E"
    and doc: "doc = Heading (1 + offset_of opts) [InlineCode (optdot m ''path''), Text (Str '':'')] # secs
          @ V @ (if js_filter (kindIs ''variable'') ds \<noteq> [] then [line] else [])
          @ F @ (if js_filter (kindIs ''function'') ds \<noteq> [] then [line] else [])
          @ E"
    by (elim spreads_ConsE)
      (auto simp: spreads_Inr_Nil and_then_Inr_iff heading_node_Inr_iff dot_def split: if_splits)
  have f: "filter_of ?t = None" by (simp add: filter_of_def)
  have sub: "retained opts ?t xs \<noteq> [] \<Longrightarrow> xs \<noteq> []" for xs
    by (auto simp: retained_filter)
  have all: "retained opts ?t (js_filter (kindIs k) ds) = js_filter (kindIs k) ds"
    if "\<forall>x\<in>set ds. \<not> truthy (isPrivate x) \<and> \<not> truthy (isProtected x)" for k
    by (rule retained_all [OF _ f]) (use that in \<open>auto simp: js_filter_def dest: kindIs_truthy\<close>)
  from table_nonempty_iff [OF V] table_nonempty_iff [OF F] sub all
  have "(V \<noteq> [] \<longrightarrow> js_filter (kindIs ''variable'') ds \<noteq> [])
    \<and> (F \<noteq> [] \<longrightarrow> js_filter (kindIs ''function'') ds \<noteq> [])
    \<and> ((\<forall>x\<in>set ds. \<not> truthy (isPrivate x) \<and> \<not> truthy (isProtected x)) \<longrightarrow>
          (V \<noteq> [] \<longleftrightarrow> js_filter (kindIs ''variable'') ds \<noteq> [])
        \<and> (F \<noteq> [] \<longleftrightarrow> js_filter (kindIs ''function'') ds \<noteq> []))"
    by metis
  with ds secs V F E doc show ?thesis unfolding spec_offset_eq by blast
qed

theorem module_table_separators_witness:
  "makeModuleDoc
     (Obj [(''path'', Str ''a.js''),
           (''declarations'', Arr [Obj [(''kind'', Str ''variable''), (''name'', Str ''v'')]])])
     None =
   Inr (Some [Heading 1 [InlineCode (Str ''a.js''), Text (Str '':'')],
              Heading 2 [Text (Str ''Variables'')],
              Table [Null, Null, Null]
                [TableRow [TableCell [Text (Str ''Name'')], TableCell [Text (Str ''Description'')],
                           TableCell [Text (Str ''Type'')]],
                 TableRow [TableCell [Text (Str ''v'')], TableCell [Text (Str [])],
                           TableCell [Text (Str [])]]],
              Html ''<hr/>''])
   \<and> (\<exists>V. tableWithTitle None ''Variables'' [Name ''name'', Name ''description'', Desc TYPE_COL]
        (Arr (js_filter (kindIs ''variable'') [Obj [(''kind'', Str ''variable''), (''name'', Str ''v'')]]))
        (Some \<lparr> headingLevel = Some 2, filter_opt = None \<rparr>) = Inr V \<and> V \<noteq> [])"
proof -
  have r: "makeModuleDoc
     (Obj [(''path'', Str ''a.js''),
           (''declarations'', Arr [Obj [(''kind'', Str ''variable''), (''name'', Str ''v'')]])])
     None =
   Inr (Some [Heading 1 [InlineCode (Str ''a.js''), Text (Str '':'')],
              Heading 2 [Text (Str ''Variables'')],
              Table [Null, Null, Null]
                [TableRow [TableCell [Text (Str ''Name'')], TableCell [Text (Str ''Description'')],
                           TableCell [Text (Str ''Type'')]],
                 TableRow [TableCell [Text (Str ''v'')], TableCell [Text (Str [])],
                           TableCell [Text (Str [])]]],
              Html ''<hr/>''])"
    by (simp add: module_eval descriptor_eval table_eval)
  have u: "\<forall>x\<in>set [Obj [(''kind'', Str ''variable''), (''name'', Str ''v'')]].
      \<not> truthy (isPrivate x) \<and> \<not> truthy (isProtected x)"
    by (simp add: isPrivate_def isProtected_def)
  have v: "js_filter (kindIs ''variable'') [Obj [(''kind'', Str ''variable''), (''name'', Str ''v'')]] \<noteq> []"
    by (simp add: js_filter_def kindIs_def)
  from module_table_separators [OF r] u v have
    "\<exists>V. tableWithTitle None ''Variables'' [Name ''name'', Name ''description'', Desc TYPE_COL]
        (Arr (js_filter (kindIs ''variable'') [Obj [(''kind'', Str ''variable''), (''name'', Str ''v'')]]))
        (Some \<lparr> headingLevel = Some 2, filter_opt = None \<rparr>) = Inr V \<and> V \<noteq> []"
    by (auto simp: coalesce_def)
  with r show ?thesis by blast
qed

section \<open>Totality\<close>

lemma mainNodes_total:
  assumes "wf_decl decl" "list_all wf_member mths" "- 1 \<le> offset_of opts"
  shows "\<exists>ns. mainNodes opts decl flds mths = Inr ns"
proof -
  note acc = name_total accessors_total parameters_total
  have k: "1 \<le> level_of None + offset_of opts"
    using assms(3) by (simp add: level_of_def)
  from assms(1) have "wf_member decl" by (simp add: wf_decl_def)
  then have ps: "optional_seq (optdot decl ''parameters'')"
    by (cases "optdot decl ''parameters''") (simp_all add: wf_member_def)
  have seqs: "optional_seq (optdot decl ''mixins'')" "optional_seq (optdot decl ''parameters'')"
    "optional_seq (optdot decl ''events'')" "optional_seq (optdot decl ''attributes'')"
    "optional_seq (optdot decl ''cssProperties'')" "optional_seq (optdot decl ''parts'')"
    "optional_seq (optdot decl ''slots'')" and nn: "\<not> nullish decl"
    using assms(1) ps by (simp_all add: wf_decl_def)
  have hd: "\<exists>v. (if optdot decl ''kind'' \<noteq> Str ''mixin'' \<and> optdot decl ''kind'' \<noteq> Str ''class''
            then Inr [None]
            else and_then (declarationHeading opts decl) (\<lambda>h. Inr [Some h])) = Inr v"
    using nn assms(3) by (auto simp: declarationHeading_def Let_def heading_node_def)
  have sup: "\<exists>ns. tableWithTitle opts ''Superclass'' [Name ''name'', Name ''module'', Name ''package'']
             (Arr [optdot decl ''superclass'']) None = Inr ns"
    by (rule table_total [OF _ _ k]) (auto simp: acc)
  have mix: "\<exists>ns. tableWithTitle opts ''Mixins'' [Name ''name'', Name ''module'', Name ''package'']
             (optdot decl ''mixins'') None = Inr ns"
    by (rule table_total [OF seqs(1) _ k]) (auto simp: acc)
  have "\<exists>ns. tableWithTitle opts ''Parameters''
               [Name ''name'', Desc TYPE_COL, Desc DEFAULT, Name ''description'']
               (optdot decl ''parameters'') None = Inr ns"
    by (rule table_total [OF seqs(2) _ k]) (auto simp: acc)
  then have par: "\<exists>ns. (if optdot decl ''kind'' = Str ''mixin''
             then tableWithTitle opts ''Parameters''
               [Name ''name'', Desc TYPE_COL, Desc DEFAULT, Name ''description'']
               (optdot decl ''parameters'') None
             else Inr []) = Inr ns"
    by simp
  have fld: "\<exists>ns. tableWithTitle opts ''Fields''
             [Name ''name'', Name ''privacy'', Desc TYPE_COL, Desc DEFAULT,
              Name ''description'', Desc INHERITANCE]
             (Arr flds) None = Inr ns"
    by (rule table_total [OF _ _ k]) (auto simp: acc)
  have mth: "\<exists>ns. tableWithTitle opts ''Methods''
             [Name ''name'', Name ''privacy'', Name ''description'', Desc PARAMETERS,
              Desc RETURN, Desc INHERITANCE]
             (Arr mths) None = Inr ns"
    by (rule table_total_rows [OF _ k])
      (use assms(2) in \<open>auto simp: acc list_all_iff\<close>)
  have ev: "\<exists>ns. tableWithTitle opts ''Events''
             [Name ''name'', Desc TYPE_COL, Name ''description'', Desc INHERITANCE]
             (optdot decl ''events'') None = Inr ns"
    by (rule table_total [OF seqs(3) _ k]) (auto simp: acc)
  have att: "\<exists>ns. tableWithTitle opts ''Attributes'' [Name ''name'', Desc ATTR_FIELD, Desc INHERITANCE]
             (optdot decl ''attributes'') None = Inr ns"
    by (rule table_total [OF seqs(4) _ k]) (auto simp: acc)
  have css: "\<exists>ns. tableWithTitle opts ''CSS Properties'' [Name ''name'', Desc DEFAULT, Name ''description'']
             (optdot decl ''cssProperties'') None = Inr ns"
    by (rule table_total [OF seqs(5) _ k]) (auto simp: acc)
  have prt: "\<exists>ns. tableWithTitle opts ''Parts'' [Name ''name'', Name ''description'']
             (optdot decl ''parts'') None = Inr ns"
    by (rule table_total [OF seqs(6) _ k]) (auto simp: acc)
  have slt: "\<exists>ns. tableWithTitle opts ''Slots'' [Name ''name'', Name ''description'']
             (optdot decl ''slots'') None = Inr ns"
    by (rule table_total [OF seqs(7) _ k]) (auto simp: acc)
  have "\<exists>es. spreads [
           (if optdot decl ''kind'' \<noteq> Str ''mixin'' \<and> optdot decl ''kind'' \<noteq> Str ''class'' then Inr [None]
            else and_then (declarationHeading opts decl) (\<lambda>h. Inr [Some h])),
           spread (tableWithTitle opts ''Superclass'' [Name ''name'', Name ''module'', Name ''package'']
             (Arr [optdot decl ''superclass'']) None),
           spread (tableWithTitle opts ''Mixins'' [Name ''name'', Name ''module'', Name ''package'']
             (optdot decl ''mixins'') None),
           spread (if optdot decl ''kind'' = Str ''mixin''
             then tableWithTitle opts ''Parameters''
               [Name ''name'', Desc TYPE_COL, Desc DEFAULT, Name ''description'']
               (optdot decl ''parameters'') None
             else Inr []),
           spread (tableWithTitle opts ''Fields''
             [Name ''name'', Name ''privacy'', Desc TYPE_COL, Desc DEFAULT,
              Name ''description'', Desc INHERITANCE]
             (Arr flds) None),
           spread (tableWithTitle opts ''Methods''
             [Name ''name'', Name ''privacy'', Name ''description'', Desc PARAMETERS,
              Desc RETURN, Desc INHERITANCE]
             (Arr mths) None),
           spread (tableWithTitle opts ''Events''
             [Name ''name'', Desc TYPE_COL, Name ''description'', Desc INHERITANCE]
             (optdot decl ''events'') None),
           spread (tableWithTitle opts ''Attributes'' [Name ''name'', Desc ATTR_FIELD, Desc INHERITANCE]
             (optdot decl ''attributes'') None),
           spread (tableWithTitle opts ''CSS Properties'' [Name ''name'', Desc DEFAULT, Name ''description'']
             (optdot decl ''cssProperties'') None),
           spread (tableWithTitle opts ''Parts'' [Name ''name'', Name ''description'']
             (optdot decl ''parts'') None),
           spread (tableWithTitle opts ''Slots'' [Name ''name'', Name ''description'']
             (optdot decl ''slots'') None)
         ] = Inr es"
    by (rule spreads_total)
      (use hd spread_total [OF sup] spread_total [OF mix] spread_total [OF par]
        spread_total [OF fld] spread_total [OF mth] spread_total [OF ev] spread_total [OF att]
        spread_total [OF css] spread_total [OF prt] spread_total [OF slt] in auto)
  then show ?thesis by (auto simp: mainNodes_def Let_def)
qed

lemma privateApi_total:
  assumes "list_all wf_member mths" "- 1 \<le> offset_of opts"
  shows "\<exists>ns. privateApi opts flds mths = Inr ns"
proof -
  note acc = name_total accessors_total parameters_total
  let ?bypass = "Some \<lparr> headingLevel = None, filter_opt = Some identity \<rparr>"
  have k: "1 \<le> level_of ?bypass + offset_of opts"
    using assms(2) by (simp add: level_of_def)
  have fld: "\<exists>ns. tableWithTitle opts ''Fields''
             [Name ''name'', Name ''privacy'', Desc TYPE_COL, Desc DEFAULT,
              Name ''description'', Desc INHERITANCE]
             (Arr (js_filter (or isPrivate isProtected) flds)) ?bypass = Inr ns"
    by (rule table_total [OF _ _ k]) (auto simp: acc)
  have mth: "\<exists>ns. tableWithTitle opts ''Methods''
             [Name ''name'', Name ''privacy'', Name ''description'', Desc PARAMETERS,
              Desc RETURN, Desc INHERITANCE]
             (Arr (js_filter (or isPrivate isProtected) mths)) ?bypass = Inr ns"
    by (rule table_total_rows [OF _ k])
      (use assms(1) in \<open>auto simp: acc list_all_iff js_filter_def\<close>)
  have "\<exists>ns. spreads [
                Inr [Html ''<details><summary>Private API</summary>''],
                tableWithTitle opts ''Fields''
                  [Name ''name'', Name ''privacy'', Desc TYPE_COL, Desc DEFAULT,
                   Name ''description'', Desc INHERITANCE]
                  (Arr (js_filter (or isPrivate isProtected) flds)) ?bypass,
                tableWithTitle opts ''Methods''
                  [Name ''name'', Name ''privacy'', Name ''description'', Desc PARAMETERS,
                   Desc RETURN, Desc INHERITANCE]
                  (Arr (js_filter (or isPrivate isProtected) mths)) ?bypass,
                Inr [Html ''</details>'']
              ] = Inr ns"
    by (rule spreads_total) (use fld mth in auto)
  then show ?thesis by (auto simp: privateApi_def Let_def)
qed

lemma declNodes_total:
  assumes "wf_decl decl" "- 1 \<le> offset_of opts"
  shows "\<exists>ns. declNodes opts decl = Inr ns"
proof -
  from assms(1) have nn: "\<not> nullish decl" by (simp add: wf_decl_def)
  from assms(1) obtain ms where ms:
    "array_of (case optdot decl ''members'' of Undefined \<Rightarrow> Arr [] | m \<Rightarrow> m) = Inr ms"
    and wf: "list_all wf_member ms"
    by (cases "optdot decl ''members''") (auto simp: wf_decl_def)
  from wf have m: "list_all wf_member (js_filter (kindIs ''method'') ms)"
    by (simp add: list_all_iff js_filter_def)
  from mainNodes_total [OF assms(1) m assms(2)] obtain main where
    "mainNodes opts decl (js_filter (kindIs ''field'') ms) (js_filter (kindIs ''method'') ms) = Inr main"
    by blast
  moreover from privateApi_total [OF m assms(2)] obtain pushed where
    "privateApi opts (js_filter (kindIs ''field'') ms) (js_filter (kindIs ''method'') ms) = Inr pushed"
    by blast
  ultimately show ?thesis using nn ms
    by (simp add: declNodes_def Let_def)
qed

lemma makeModuleDoc_total:
  assumes "wf_module m" "0 \<le> offset_of opts"
  shows "\<exists>r. makeModuleDoc m opts = Inr r"
proof (cases "\<not> truthy (js_length (coalesce (optdot m ''declarations'') (Arr [])))
      \<and> \<not> truthy (js_length (coalesce (optdot m ''exports'') (Arr [])))")
  case True
  then show ?thesis by (simp add: makeModuleDoc_def)
next
  case False
  note acc = name_total accessors_total parameters_total
  let ?t = "Some \<lparr> headingLevel = Some 2, filter_opt = None \<rparr>"
  have k: "1 \<le> level_of ?t + offset_of opts"
    using assms(2) by (simp add: level_of_def)
  from assms(1) obtain ds where ds: "coalesce (optdot m ''declarations'') (Arr []) = Arr ds"
    and wf: "list_all wf_decl ds" and ex: "optional_seq (optdot m ''exports'')"
    by (cases "coalesce (optdot m ''declarations'') (Arr [])") (auto simp: wf_module_def)
  from False have nn: "\<not> nullish m"
    by (cases m) (auto simp: coalesce_def)
  have secs: "\<exists>ns. spreads (map (declNodes opts) ds) = Inr ns"
    by (rule spreads_total) (use wf assms(2) declNodes_total [of _ opts] in \<open>auto simp: list_all_iff\<close>)
  have vars: "\<exists>ns. tableWithTitle opts ''Variables'' [Name ''name'', Name ''description'', Desc TYPE_COL]
          (Arr (js_filter (kindIs ''variable'') ds)) ?t = Inr ns"
    by (rule table_total [OF _ _ k]) (auto simp: acc)
  have funs: "\<exists>ns. tableWithTitle opts ''Functions''
          [Name ''name'', Name ''description'', Desc PARAMETERS, Desc RETURN]
          (Arr (js_filter (kindIs ''function'') ds)) ?t = Inr ns"
    by (rule table_total_rows [OF _ k])
      (use wf in \<open>auto simp: acc list_all_iff wf_decl_def js_filter_def\<close>)
  have "\<exists>ns. tableWithTitle opts ''Exports''
            [Name ''kind'', Name ''name'', Desc DECLARATION, Desc MODULE, Desc PACKAGE]
            (optdot m ''exports'') ?t = Inr ns"
    by (rule table_total [OF ex _ k]) (auto simp: acc)
  with nn have exps: "\<exists>ns. and_then (dot m ''exports'') (\<lambda>es.
          tableWithTitle opts ''Exports''
            [Name ''kind'', Name ''name'', Desc DECLARATION, Desc MODULE, Desc PACKAGE]
            es ?t) = Inr ns"
    by (simp add: dot_def)
  from nn assms(2) have hd: "\<exists>ns. and_then (dot m ''path'') (\<lambda>path.
          and_then (heading_node (1 + offset_of opts) [InlineCode path, Text (Str '':'')])
            (\<lambda>h. Inr [h])) = Inr ns"
    by (simp add: dot_def heading_node_def)
  have "\<exists>doc. spreads [
        and_then (dot m ''path'') (\<lambda>path.
          and_then (heading_node (1 + offset_of opts) [InlineCode path, Text (Str '':'')])
            (\<lambda>h. Inr [h])),
        spreads (map (declNodes opts) ds),
        tableWithTitle opts ''Variables'' [Name ''name'', Name ''description'', Desc TYPE_COL]
          (Arr (js_filter (kindIs ''variable'') ds)) ?t,
        Inr (if js_filter (kindIs ''variable'') ds \<noteq> [] then [line] else []),
        tableWithTitle opts ''Functions''
          [Name ''name'', Name ''description'', Desc PARAMETERS, Desc RETURN]
          (Arr (js_filter (kindIs ''function'') ds)) ?t,
        Inr (if js_filter (kindIs ''function'') ds \<noteq> [] then [line] else []),
        and_then (dot m ''exports'') (\<lambda>es.
          tableWithTitle opts ''Exports''
            [Name ''kind'', Name ''name'', Desc DECLARATION, Desc MODULE, Desc PACKAGE]
            es ?t)] = Inr doc"
    by (rule spreads_total) (use hd secs vars funs exps in auto)
  with False ds show ?thesis
    by (auto simp: makeModuleDoc_def Let_def simp del: truthy.simps)
qed

lemma manifest_total:
  assumes "wf_manifest manifest" "0 \<le> offset_of opts"
  shows "\<exists>t. customElementsManifestToMarkdown serialize manifest opts = Inr t"
proof -
  from assms(1) obtain ms where ms: "optdot manifest ''modules'' = Arr ms"
    and wf: "list_all wf_module ms"
    by (cases "optdot manifest ''modules''") (auto simp: wf_manifest_def)
  from ms have nn: "\<not> nullish manifest" by (cases manifest) auto
  have "\<exists>docs. sequence (map (\<lambda>x. makeModuleDoc x opts) ms) = Inr docs"
    by (rule sequence_total) (use wf assms(2) makeModuleDoc_total [of _ opts] in \<open>auto simp: list_all_iff\<close>)
  with ms nn show ?thesis
    by (auto simp: customElementsManifestToMarkdown_def dot_def)
qed

lemma manifest_without_modules:
  assumes "\<And>ms. optdot manifest ''modules'' \<noteq> Arr ms"
  shows "customElementsManifestToMarkdown serialize manifest opts = Inl TypeError"
  using assms
  by (cases "optdot manifest ''modules''")
    (auto simp: customElementsManifestToMarkdown_def dot_def)

text \<open>
  C9 as the spec states it, for every option, fails: \<open>heading\<close> refuses a depth below
  1, so a negative \<open>headingOffset\<close> makes the builders throw on well-typed input.  With
  \<open>headingOffset\<close> -2 the declaration builder throws on a class, with -3 table assembly
  throws on a list with one row.
\<close>

theorem invalid_depth_counterexample:
  "wf_decl (Obj [(''kind'', Str ''class''), (''name'', Str ''A'')])
   \<and> declNodes (Some \<lparr>headingOffset = Some (- 2), privateOpt = None\<rparr>)
        (Obj [(''kind'', Str ''class''), (''name'', Str ''A'')]) = Inl (InvalidDepth 0)
   \<and> optional_seq (Arr [Obj [(''name'', Str ''M'')]])
   \<and> tableWithTitle (Some \<lparr>headingOffset = Some (- 3), privateOpt = None\<rparr>) ''Mixins''
        [Name ''name'', Name ''module'', Name ''package'']
        (Arr [Obj [(''name'', Str ''M'')]]) None = Inl (InvalidDepth 0)"
  by (simp add: wf_decl_def wf_member_def module_eval descriptor_eval table_eval)

text \<open>
  C9, amended: on well-typed, partially populated inputs the builders return whenever
  the heading depths are at least 1.  Table assembly returns for an optional sequence
  of rows when its heading depth is at least 1 and the accessors return on truthy rows,
  as those of this program do; the declaration builder returns for a declaration whose
  optional fields may be absent when \<open>headingOffset\<close> is at least -1; the module builder
  and the document assembly return when it is at least 0.  A manifest without a
  \<open>modules\<close> array makes the document assembly throw a \<open>TypeError\<close>.
\<close>

theorem builders_total:
  "(optional_seq decls0
      \<and> (\<forall>n\<in>set names. \<forall>x. truthy x \<longrightarrow> (\<exists>v. get (getDescriptor n) x = Inr v))
      \<and> 1 \<le> spec_depth opts topts
      \<longrightarrow> (\<exists>ns. tableWithTitle opts title names decls0 topts = Inr ns))
   \<and> (wf_decl decl \<and> - 1 \<le> spec_offset opts \<longrightarrow> (\<exists>ns. declNodes opts decl = Inr ns))
   \<and> (wf_module m \<and> 0 \<le> spec_offset opts \<longrightarrow> (\<exists>r. makeModuleDoc m opts = Inr r))
   \<and> (wf_manifest manifest \<and> 0 \<le> spec_offset opts \<longrightarrow>
        (\<exists>t. customElementsManifestToMarkdown serialize manifest opts = Inr t))
   \<and> ((\<forall>ms. optdot manifest ''modules'' \<noteq> Arr ms) \<longrightarrow>
        customElementsManifestToMarkdown serialize manifest opts = Inl TypeError)"
  using table_total [of decls0 names topts opts title] declNodes_total [of decl opts]
    makeModuleDoc_total [of m opts] manifest_total [of manifest opts serialize]
    manifest_without_modules [of manifest serialize opts]
  unfolding spec_offset_eq spec_depth_eq
  by blast

theorem builders_total_witness:
  "(\<exists>ns. declNodes (Some \<lparr>headingOffset = None, privateOpt = Some ''hidden''\<rparr>)
      (Obj [(''kind'', Str ''class''), (''members'', Arr [Obj [(''kind'', Str ''method'')]])]) = Inr ns)
   \<and> (\<exists>t. customElementsManifestToMarkdown id
      (Obj [(''modules'', Arr [Obj [(''declarations'', Arr [
         Obj [(''kind'', Str ''class''), (''members'', Arr [Obj [(''kind'', Str ''method'')]])]])]])])
      (Some \<lparr>headingOffset = None, privateOpt = Some ''hidden''\<rparr>) = Inr t)
   \<and> customElementsManifestToMarkdown id (Obj [(''schemaVersion'', Str ''1.0.0'')])
      (Some \<lparr>headingOffset = None, privateOpt = Some ''hidden''\<rparr>) = Inl TypeError"
proof -
  let ?h = "Some \<lparr>headingOffset = None, privateOpt = Some ''hidden''\<rparr>"
  let ?d = "Obj [(''kind'', Str ''class''), (''members'', Arr [Obj [(''kind'', Str ''method'')]])]"
  let ?m = "Obj [(''modules'', Arr [Obj [(''declarations'', Arr [?d])]])]"
  let ?bad = "Obj [(''schemaVersion'', Str ''1.0.0'')]"
  have d: "wf_decl ?d" by (simp add: wf_decl_def wf_member_def)
  have m: "wf_manifest ?m"
    by (simp add: wf_manifest_def wf_module_def wf_decl_def wf_member_def coalesce_def)
  have b: "\<forall>ms. optdot ?bad ''modules'' \<noteq> Arr ms" by simp
  have k: "0 \<le> spec_offset ?h" "- 1 \<le> spec_offset ?h" by (simp_all add: spec_offset_def)
  from builders_total [where opts = ?h and decl = ?d and manifest = ?m and serialize = id] d m k
  have "(\<exists>ns. declNodes ?h ?d = Inr ns)
      \<and> (\<exists>t. customElementsManifestToMarkdown id ?m ?h = Inr t)"
    by blast
  moreover from builders_total [where opts = ?h and manifest = ?bad and serialize = id] b
  have "customElementsManifestToMarkdown id ?bad ?h = Inl TypeError"
    by blast
  ultimately show ?thesis by blast
qed

end
